theory Spec2Isabelle
  imports Complex_Main
begin

section \<open>JavaScript values\<close>

text \<open>
  The geocoding code of Homigo is dynamically typed: arguments, provider responses and
  form values are arbitrary JavaScript values, and the guards of the source test them with
  \<^verbatim>\<open>!x\<close>, \<^verbatim>\<open>typeof x\<close> and \<^verbatim>\<open>x || y\<close>. The model keeps that: a value is a \<open>jsval\<close>.
  A finite number is \<open>JNum q\<close>, with \<open>q\<close> the rational that the double denotes; \<open>JNaN\<close> is the
  not-a-number value, and the two infinities are not modelled. A comparison of two doubles
  is the comparison of the rationals they denote; printing a number follows
  Number::toString and \<^verbatim>\<open>Number.prototype.toFixed\<close> on the double (\<open>rat_string\<close> and \<open>toFixed\<close>
  below). A string is a list of characters, one per UTF-16
  code unit, so that \<open>length\<close> is the source's \<^verbatim>\<open>.length\<close>. An object is the association
  list of its own properties.
\<close>

datatype jsval =
    JUndefined | JNull | JBool bool | JNum rat | JNaN | JStr string
  | JArr "jsval list" | JObj "(string \<times> jsval) list"

datatype jstype = TUndefined | TObject | TBoolean | TNumber | TString

text \<open>The operator \<^verbatim>\<open>typeof\<close>.\<close>

fun typeof :: "jsval \<Rightarrow> jstype" where
  "typeof JUndefined = TUndefined"
| "typeof JNull = TObject"
| "typeof (JBool b) = TBoolean"
| "typeof (JNum q) = TNumber"
| "typeof JNaN = TNumber"
| "typeof (JStr s) = TString"
| "typeof (JArr xs) = TObject"
| "typeof (JObj kvs) = TObject"

text \<open>ToBoolean: \<^verbatim>\<open>!x\<close> is \<open>\<not> truthy x\<close>.\<close>

fun truthy :: "jsval \<Rightarrow> bool" where
  "truthy JUndefined = False"
| "truthy JNull = False"
| "truthy (JBool b) = b"
| "truthy (JNum q) = (q \<noteq> 0)"
| "truthy JNaN = False"
| "truthy (JStr s) = (s \<noteq> [])"
| "truthy (JArr xs) = True"
| "truthy (JObj kvs) = True"

text \<open>\<^verbatim>\<open>a || b\<close>.\<close>

definition or_else :: "jsval \<Rightarrow> jsval \<Rightarrow> jsval" where
  "or_else a b = (if truthy a then a else b)"

text \<open>
  Reading a property throws a TypeError on \<^verbatim>\<open>undefined\<close> and \<^verbatim>\<open>null\<close>; \<open>nullish\<close> is that
  test, and \<open>js_prop v k\<close> is \<^verbatim>\<open>v.k\<close> for every other \<open>v\<close>. Each caller below reads a property
  only of a value it has found truthy, or tests \<open>nullish\<close> first and throws.
\<close>

fun nullish :: "jsval \<Rightarrow> bool" where
  "nullish JUndefined = True"
| "nullish JNull = True"
| "nullish v = False"

fun js_prop :: "jsval \<Rightarrow> string \<Rightarrow> jsval" where
  "js_prop (JObj kvs) k = (case map_of kvs k of Some v \<Rightarrow> v | None \<Rightarrow> JUndefined)"
| "js_prop (JArr xs) k = (if k = ''length'' then JNum (of_nat (length xs)) else JUndefined)"
| "js_prop (JStr s) k = (if k = ''length'' then JNum (of_nat (length s)) else JUndefined)"
| "js_prop v k = JUndefined"

text \<open>\<^verbatim>\<open>v[0]\<close>, of a value that is not nullish.\<close>

fun index0 :: "jsval \<Rightarrow> jsval" where
  "index0 (JArr xs) = (case xs of [] \<Rightarrow> JUndefined | x # _ \<Rightarrow> x)"
| "index0 (JStr s) = (case s of [] \<Rightarrow> JUndefined | c # _ \<Rightarrow> JStr [c])"
| "index0 (JObj kvs) = (case map_of kvs ''0'' of Some v \<Rightarrow> v | None \<Rightarrow> JUndefined)"
| "index0 v = JUndefined"

text \<open>
  \<^verbatim>\<open>v > 0\<close>. On a number, a boolean, \<^verbatim>\<open>null\<close> and \<^verbatim>\<open>undefined\<close> the comparison is written
  out. On a string, an array or an object the language first converts the operand to a
  number (ToNumber, which parses text); that conversion is a parameter \<open>tn\<close> of the model,
  \<open>None\<close> standing for NaN, and every theorem below holds for every \<open>tn\<close>.
\<close>

fun gt0 :: "(jsval \<Rightarrow> rat option) \<Rightarrow> jsval \<Rightarrow> bool" where
  "gt0 tn (JNum q) = (0 < q)"
| "gt0 tn JNaN = False"
| "gt0 tn JUndefined = False"
| "gt0 tn JNull = False"
| "gt0 tn (JBool b) = b"
| "gt0 tn v = (case tn v of Some q \<Rightarrow> 0 < q | None \<Rightarrow> False)"

subsection \<open>Strings\<close>

definition is_space :: "char \<Rightarrow> bool" where
  "is_space c = (c \<in> set [CHR '' '', CHR 0x09, CHR 0x0A, CHR 0x0B, CHR 0x0C, CHR 0x0D])"

text \<open>\<^verbatim>\<open>String.prototype.trim\<close>, on the white space of the ASCII range.\<close>

definition trim :: "string \<Rightarrow> string" where
  "trim s = rev (dropWhile is_space (rev (dropWhile is_space s)))"

text \<open>\<^verbatim>\<open>String.prototype.includes\<close>.\<close>

fun str_includes :: "string \<Rightarrow> string \<Rightarrow> bool" where
  "str_includes [] p = (p = [])"
| "str_includes (c # cs) p = (take (length p) (c # cs) = p \<or> str_includes cs p)"

fun join :: "string \<Rightarrow> string list \<Rightarrow> string" where
  "join sep [] = []"
| "join sep [x] = x"
| "join sep (x # y # ys) = x @ sep @ join sep (y # ys)"

definition digit :: "int \<Rightarrow> char" where
  "digit d = ''0123456789'' ! nat (d mod 10)"

text \<open>The decimal digits of a natural number, computed on \<open>int\<close>.\<close>

function int_string :: "int \<Rightarrow> string" where
  "int_string n = (if n < 10 then [digit n] else int_string (n div 10) @ [digit (n mod 10)])"
  by pat_completeness auto
termination
  by (relation "measure nat") auto

declare int_string.simps [simp del]

text \<open>
  The numbers of the language are IEEE 754 doubles. \<open>double_parts a\<close> rounds the rational
  \<open>a \<ge> 0\<close> to the nearest double, ties to the even significand: the result \<open>(m, p)\<close> stands
  for \<open>m * 2 ^ p\<close>, with \<open>m < 2 ^ 53\<close> and \<open>p \<ge> - 1074\<close>; \<open>m = 0\<close> is zero and \<open>p > 971\<close> is
  an overflow to infinity. A double is left unchanged. So a decimal literal of the source,
  such as \<^verbatim>\<open>85.8246\<close>, can be written as the rational \<open>858246 / 10000\<close>: printing it prints
  the double that the literal denotes.
\<close>

function ipow :: "int \<Rightarrow> int \<Rightarrow> int" where
  "ipow b e = (if e \<le> 0 then 1 else b * ipow b (e - 1))"
  by pat_completeness auto
termination
  by (relation "measure (\<lambda>(b, e). nat e)") auto

declare ipow.simps [simp del]

text \<open>\<open>scale b e\<close> is \<open>b\<close> to the power \<open>e\<close>, for an exponent of either sign.\<close>

definition scale :: "int \<Rightarrow> int \<Rightarrow> rat" where
  "scale b e = (if 0 \<le> e then of_int (ipow b e) else 1 / of_int (ipow b (- e)))"

function bitlen :: "int \<Rightarrow> int" where
  "bitlen n = (if n \<le> 0 then 0 else 1 + bitlen (n div 2))"
  by pat_completeness auto
termination
  by (relation "measure nat") auto

declare bitlen.simps [simp del]

text \<open>The binary exponent of \<open>a > 0\<close>: the \<open>e\<close> with \<open>2 ^ e \<le> a < 2 ^ (e + 1)\<close>.\<close>

definition binary_exp :: "rat \<Rightarrow> int" where
  "binary_exp a =
     (let (n, d) = quotient_of a; c = bitlen n - bitlen d
      in if scale 2 c \<le> a then c else c - 1)"

definition round_half_even :: "rat \<Rightarrow> int" where
  "round_half_even x =
     (let f = \<lfloor>x\<rfloor>; r = x - of_int f
      in if r < 1 / 2 then f else if 1 / 2 < r then f + 1
         else if f mod 2 = 0 then f else f + 1)"

definition double_parts :: "rat \<Rightarrow> int \<times> int" where
  "double_parts a =
     (let p = max (binary_exp a - 52) (- 1074);
          m = round_half_even (a / scale 2 p)
      in if m = 9007199254740992 then (4503599627370496, p + 1) else (m, p))"

text \<open>
  Number::toString prints the shortest decimal digits that read back as the same double,
  and of those the nearest to it. \<open>shortest_digits m p\<close> is \<open>(s, t)\<close>, for the decimal
  \<open>s * 10 ^ t\<close>: with \<open>k = 1, 2, \<dots>, 17\<close> digits, it takes the two \<open>k\<close>-digit decimals around
  the double and stops at the first \<open>k\<close> for which one of them lies in the rounding interval
  of the double (the interval is closed when the significand is even, and its lower half
  is half as wide at a power of two).
\<close>

fun decimal_exp_from :: "nat \<Rightarrow> rat \<Rightarrow> int \<Rightarrow> int" where
  "decimal_exp_from 0 v n = n"
| "decimal_exp_from (Suc k) v n =
     (if v < scale 10 (n - 1) then decimal_exp_from k v (n - 1)
      else if scale 10 n \<le> v then decimal_exp_from k v (n + 1) else n)"

text \<open>The decimal exponent of \<open>v > 0\<close>: the \<open>n\<close> with \<open>10 ^ (n - 1) \<le> v < 10 ^ n\<close>.\<close>

definition decimal_exp :: "rat \<Rightarrow> int" where
  "decimal_exp v = decimal_exp_from 4 v (((binary_exp v + 1) * 30103) div 100000)"

definition in_interval :: "bool \<Rightarrow> rat \<Rightarrow> rat \<Rightarrow> rat \<Rightarrow> bool" where
  "in_interval incl lo hi c = (if incl then lo \<le> c \<and> c \<le> hi else lo < c \<and> c < hi)"

fun shortest_from :: "nat \<Rightarrow> int \<Rightarrow> rat \<Rightarrow> rat \<Rightarrow> rat \<Rightarrow> bool \<Rightarrow> int \<Rightarrow> int \<times> int" where
  "shortest_from 0 k v lo hi incl n = (\<lfloor>v / scale 10 (n - k)\<rfloor>, n - k)"
| "shortest_from (Suc fuel) k v lo hi incl n =
     (let u = scale 10 (n - k);
          s = \<lfloor>v / u\<rfloor>;
          c1 = of_int s * u;
          c2 = of_int (s + 1) * u;
          in1 = in_interval incl lo hi c1;
          in2 = in_interval incl lo hi c2
      in if in1 \<and> (\<not> in2 \<or> v - c1 < c2 - v \<or> (v - c1 = c2 - v \<and> s mod 2 = 0))
         then (s, n - k)
         else if in2 then (s + 1, n - k)
         else shortest_from fuel (k + 1) v lo hi incl n)"

definition shortest_digits :: "int \<Rightarrow> int \<Rightarrow> int \<times> int" where
  "shortest_digits m p =
     (let v = of_int m * scale 2 p;
          below = (if m = 4503599627370496 \<and> - 1074 < p
                   then scale 2 (p - 2) else scale 2 (p - 1));
          (s, t) = shortest_from 17 1 v (v - below) (v + scale 2 (p - 1)) (m mod 2 = 0)
                     (decimal_exp v)
      in if s mod 10 = 0 then (s div 10, t + 1) else (s, t))"

text \<open>
  The layout of Number::toString, for the digits \<open>ds\<close> of a number between \<open>10 ^ (n - 1)\<close>
  and \<open>10 ^ n\<close>: plain decimal notation when \<open>- 6 < n \<le> 21\<close>, exponent notation otherwise.
\<close>

definition format_number :: "string \<Rightarrow> int \<Rightarrow> string" where
  "format_number ds n =
     (let k = int (length ds) in
      if k \<le> n \<and> n \<le> 21 then ds @ replicate (nat (n - k)) (CHR ''0'')
      else if 0 < n \<and> n \<le> 21 then take (nat n) ds @ ''.'' @ drop (nat n) ds
      else if - 6 < n \<and> n \<le> 0 then ''0.'' @ replicate (nat (- n)) (CHR ''0'') @ ds
      else (let e = n - 1; es = (if e < 0 then ''-'' else ''+'') @ int_string \<bar>e\<bar>
            in if k = 1 then ds @ ''e'' @ es
               else take 1 ds @ ''.'' @ drop 1 ds @ ''e'' @ es))"

text \<open>
  Number to string, as a template literal and a form field do it: \<open>rat_string q\<close> is
  Number::toString of the double nearest to \<open>q\<close>.
\<close>

definition rat_string :: "rat \<Rightarrow> string" where
  "rat_string q =
     (let (m, p) = double_parts \<bar>q\<bar> in
      if m = 0 then ''0''
      else (if q < 0 then ''-'' else []) @
           (if 971 < p then ''Infinity''
            else (let (s, t) = shortest_digits m p; ds = int_string s
                  in format_number ds (t + int (length ds)))))"

primrec pow10 :: "nat \<Rightarrow> int" where
  "pow10 0 = 1"
| "pow10 (Suc f) = 10 * pow10 f"

text \<open>
  \<^verbatim>\<open>Number.prototype.toFixed\<close>, of the double \<open>x\<close> nearest to \<open>q\<close>: the sign, then the integer
  \<open>n\<close> nearest to the exact value of \<open>\<bar>x\<bar> * 10 ^ f\<close> (the larger one on a tie), written with
  \<open>f\<close> digits after the point; from \<open>10 ^ 21\<close> on, the method prints as ToString does.
\<close>

definition toFixed :: "rat \<Rightarrow> nat \<Rightarrow> string" where
  "toFixed q f =
     (let (m, p) = double_parts \<bar>q\<bar>; x = of_int m * scale 2 p in
      if 971 < p \<or> scale 10 21 \<le> x then rat_string q
      else (let n = \<lfloor>x * of_int (pow10 f) + 1 / 2\<rfloor>;
                s = int_string n;
                s' = replicate (Suc f - length s) (CHR ''0'') @ s;
                k = length s' - f
            in (if q < 0 \<and> m \<noteq> 0 then ''-'' else []) @ take k s' @
               (if f = 0 then [] else ''.'' @ drop k s')))"

text \<open>ToString, as a template literal \<^verbatim>\<open>`${v}`\<close> applies it.\<close>

fun js_to_string :: "jsval \<Rightarrow> string" where
  "js_to_string JUndefined = ''undefined''"
| "js_to_string JNull = ''null''"
| "js_to_string (JBool b) = (if b then ''true'' else ''false'')"
| "js_to_string (JNum q) = rat_string q"
| "js_to_string JNaN = ''NaN''"
| "js_to_string (JStr s) = s"
| "js_to_string (JArr xs) =
     join '','' (map (\<lambda>x. if x = JUndefined \<or> x = JNull then [] else js_to_string x) xs)"
| "js_to_string (JObj kvs) = ''[object Object]''"

section \<open>The geocoding service\<close>

text \<open>
  \<^verbatim>\<open>class GeocodingService\<close>: three asynchronous methods, each one guard, one request to the
  provider through axios inside \<^verbatim>\<open>try\<close>, and a \<^verbatim>\<open>catch\<close> that turns every exception into a
  result object.

  A thrown value is a \<open>js_error\<close>; \<open>err_status\<close> is \<^verbatim>\<open>error.response.status\<close> where axios
  attached a response (an HTTP error status) and \<open>None\<close> where it did not (a timeout, a
  network failure, a TypeError of the method's own). The awaited call \<^verbatim>\<open>axios.get\<close> either
  resolves, and the model keeps \<^verbatim>\<open>response.data\<close>, or rejects. A method returns what it
  returns or throws, as a sum with the error on the left, and the requests it has sent.
\<close>

record js_error =
  err_name :: string
  err_message :: string
  err_status :: "nat option"

definition type_error :: "string \<Rightarrow> js_error" where
  "type_error m = \<lparr>err_name = ''TypeError'', err_message = m, err_status = None\<rparr>"

datatype axios_outcome = Resolves jsval | Rejects js_error

text \<open>
  A request to the provider: \<^verbatim>\<open>/search\<close> with its \<^verbatim>\<open>text\<close>, \<^verbatim>\<open>/reverse\<close> with \<^verbatim>\<open>lat\<close> and \<^verbatim>\<open>lon\<close>,
  \<^verbatim>\<open>/autocomplete\<close> with \<^verbatim>\<open>text\<close>, \<^verbatim>\<open>limit\<close> and the optional \<^verbatim>\<open>bias\<close>.
\<close>

datatype request =
    Search string
  | Reverse jsval jsval
  | Autocomplete string jsval "string option"

text \<open>The world outside the service: what the provider answers, and ToNumber.\<close>

record world =
  upstream :: "request \<Rightarrow> axios_outcome"
  to_number :: "jsval \<Rightarrow> rat option"

text \<open>
  The object a geocoding method returns. A property the object literal does not have
  reads as \<open>JUndefined\<close>.
\<close>

record geo_result =
  success :: bool
  coordinates :: jsval
  address :: jsval
  country :: jsval
  city :: jsval
  state :: jsval
  error :: jsval

subsection \<open>geocodeAddress\<close>

text \<open>
  The \<^verbatim>\<open>try\<close> block after the request has settled. \<^verbatim>\<open>results[0]\<close> may be \<^verbatim>\<open>null\<close> or
  \<^verbatim>\<open>undefined\<close> (a body such as \<^verbatim>\<open>{"results": [null]}\<close>); then \<^verbatim>\<open>result.lon\<close>, the first
  property read, throws.
\<close>

definition geocodeAddress_try :: "(jsval \<Rightarrow> rat option) \<Rightarrow> jsval \<Rightarrow> axios_outcome \<Rightarrow> js_error + geo_result" where
  "geocodeAddress_try tn addr out =
     (case out of
        Rejects e \<Rightarrow> Inl e
      | Resolves data \<Rightarrow>
          if truthy data \<and> truthy (js_prop data ''results'')
             \<and> gt0 tn (js_prop (js_prop data ''results'') ''length'')
          then
            let result = index0 (js_prop data ''results'') in
            if nullish result then Inl (type_error ''Cannot read properties of undefined'')
            else Inr \<lparr>success = True,
                      coordinates = JArr [js_prop result ''lon'', js_prop result ''lat''],
                      address = or_else (js_prop result ''formatted'') addr,
                      country = or_else (js_prop result ''country'') (JStr []),
                      city = or_else (or_else (js_prop result ''city'') (js_prop result ''county'')) (JStr []),
                      state = or_else (js_prop result ''state'') (JStr []),
                      error = JNull\<rparr>
          else Inr \<lparr>success = False, coordinates = JNull, address = addr,
                    country = JUndefined, city = JUndefined, state = JUndefined,
                    error = JStr ''No results found for the provided address''\<rparr>)"

definition geocodeAddress_catch :: "jsval \<Rightarrow> js_error \<Rightarrow> geo_result" where
  "geocodeAddress_catch addr e =
     (if err_status e = Some 401 then
        \<lparr>success = False, coordinates = JNull, address = addr,
         country = JUndefined, city = JUndefined, state = JUndefined,
         error = JStr ''Invalid API key for geocoding service''\<rparr>
      else if err_status e = Some 429 then
        \<lparr>success = False, coordinates = JNull, address = addr,
         country = JUndefined, city = JUndefined, state = JUndefined,
         error = JStr ''Rate limit exceeded for geocoding service''\<rparr>
      else
        \<lparr>success = False, coordinates = JNull, address = addr,
         country = JUndefined, city = JUndefined, state = JUndefined,
         error = JStr (''Geocoding failed: '' @ err_message e)\<rparr>)"

definition geocodeAddress :: "world \<Rightarrow> jsval \<Rightarrow> (js_error + geo_result) \<times> request list" where
  "geocodeAddress w addr =
     (if \<not> truthy addr \<or> typeof addr \<noteq> TString then
        (Inr \<lparr>success = False, coordinates = JNull, address = JNull,
              country = JUndefined, city = JUndefined, state = JUndefined,
              error = JStr ''Invalid address provided''\<rparr>, [])
      else
        let req = Search (trim (js_to_string addr)) in
        (case geocodeAddress_try (to_number w) addr (upstream w req) of
           Inr r \<Rightarrow> (Inr r, [req])
         | Inl e \<Rightarrow> (Inr (geocodeAddress_catch addr e), [req])))"

subsection \<open>reverseGeocode\<close>

text \<open>The label \<^verbatim>\<open>`${lat}, ${lng}`\<close>.\<close>

definition coords_label :: "jsval \<Rightarrow> jsval \<Rightarrow> jsval" where
  "coords_label lat lng = JStr (js_to_string lat @ '', '' @ js_to_string lng)"

definition reverseGeocode_try :: "(jsval \<Rightarrow> rat option) \<Rightarrow> jsval \<Rightarrow> jsval \<Rightarrow> axios_outcome \<Rightarrow> js_error + geo_result" where
  "reverseGeocode_try tn lat lng out =
     (case out of
        Rejects e \<Rightarrow> Inl e
      | Resolves data \<Rightarrow>
          if truthy data \<and> truthy (js_prop data ''results'')
             \<and> gt0 tn (js_prop (js_prop data ''results'') ''length'')
          then
            let result = index0 (js_prop data ''results'') in
            if nullish result then Inl (type_error ''Cannot read properties of undefined'')
            else Inr \<lparr>success = True,
                      coordinates = JUndefined,
                      address = or_else (js_prop result ''formatted'') (coords_label lat lng),
                      country = or_else (js_prop result ''country'') (JStr []),
                      city = or_else (or_else (js_prop result ''city'') (js_prop result ''county'')) (JStr []),
                      state = or_else (js_prop result ''state'') (JStr []),
                      error = JNull\<rparr>
          else Inr \<lparr>success = False, coordinates = JUndefined, address = coords_label lat lng,
                    country = JUndefined, city = JUndefined, state = JUndefined,
                    error = JStr ''No address found for the provided coordinates''\<rparr>)"

definition reverseGeocode_catch :: "jsval \<Rightarrow> jsval \<Rightarrow> js_error \<Rightarrow> geo_result" where
  "reverseGeocode_catch lat lng e =
     \<lparr>success = False, coordinates = JUndefined, address = coords_label lat lng,
      country = JUndefined, city = JUndefined, state = JUndefined,
      error = JStr (''Reverse geocoding failed: '' @ err_message e)\<rparr>"

text \<open>The guard of \<^verbatim>\<open>reverseGeocode\<close>, as the source writes it.\<close>

definition invalid_coordinates :: "jsval \<Rightarrow> jsval \<Rightarrow> bool" where
  "invalid_coordinates lat lng =
     (\<not> truthy lat \<or> \<not> truthy lng \<or> typeof lat \<noteq> TNumber \<or> typeof lng \<noteq> TNumber)"

definition reverseGeocode :: "world \<Rightarrow> jsval \<Rightarrow> jsval \<Rightarrow> (js_error + geo_result) \<times> request list" where
  "reverseGeocode w lat lng =
     (if invalid_coordinates lat lng then
        (Inr \<lparr>success = False, coordinates = JUndefined, address = JNull,
              country = JUndefined, city = JUndefined, state = JUndefined,
              error = JStr ''Invalid coordinates provided''\<rparr>, [])
      else
        let req = Reverse lat lng in
        (case reverseGeocode_try (to_number w) lat lng (upstream w req) of
           Inr r \<Rightarrow> (Inr r, [req])
         | Inl e \<Rightarrow> (Inr (reverseGeocode_catch lat lng e), [req])))"

subsection \<open>getAutocompleteSuggestions\<close>

text \<open>
  The result is the object literal itself, since the controller that receives it tests
  its shape dynamically. \<^verbatim>\<open>results.map\<close> exists on an array only: any other truthy
  \<^verbatim>\<open>results\<close> throws, and so does the callback on an element that is \<^verbatim>\<open>null\<close>. The parameter
  \<^verbatim>\<open>options\<close> defaults to \<^verbatim>\<open>{}\<close> when it is \<^verbatim>\<open>undefined\<close>; \<^verbatim>\<open>null\<close> makes \<^verbatim>\<open>options.limit\<close> throw
  inside the \<^verbatim>\<open>try\<close>, before the request.
\<close>

definition suggestion_of :: "jsval \<Rightarrow> jsval" where
  "suggestion_of result =
     JObj [(''address'', js_prop result ''formatted''),
           (''coordinates'', JArr [js_prop result ''lon'', js_prop result ''lat'']),
           (''country'', or_else (js_prop result ''country'') (JStr [])),
           (''city'', or_else (or_else (js_prop result ''city'') (js_prop result ''county'')) (JStr [])),
           (''state'', or_else (js_prop result ''state'') (JStr []))]"

definition ac_result :: "bool \<Rightarrow> jsval list \<Rightarrow> jsval \<Rightarrow> jsval" where
  "ac_result ok suggestions err =
     JObj [(''success'', JBool ok), (''suggestions'', JArr suggestions), (''error'', err)]"

definition getAutocompleteSuggestions_try :: "axios_outcome \<Rightarrow> js_error + jsval" where
  "getAutocompleteSuggestions_try out =
     (case out of
        Rejects e \<Rightarrow> Inl e
      | Resolves data \<Rightarrow>
          if truthy data \<and> truthy (js_prop data ''results'') then
            (case js_prop data ''results'' of
               JArr results \<Rightarrow>
                 if list_ex nullish results
                 then Inl (type_error ''Cannot read properties of undefined'')
                 else Inr (ac_result True (map suggestion_of results) JNull)
             | _ \<Rightarrow> Inl (type_error ''response.data.results.map is not a function''))
          else Inr (ac_result False [] (JStr ''No suggestions found'')))"

definition getAutocompleteSuggestions_catch :: "js_error \<Rightarrow> jsval" where
  "getAutocompleteSuggestions_catch e =
     ac_result False [] (JStr (''Autocomplete failed: '' @ err_message e))"

definition getAutocompleteSuggestions :: "world \<Rightarrow> jsval \<Rightarrow> jsval \<Rightarrow> (js_error + jsval) \<times> request list" where
  "getAutocompleteSuggestions w query options =
     (if \<not> truthy query \<or> typeof query \<noteq> TString \<or> length (js_to_string query) < 3 then
        (Inr (ac_result False [] (JStr ''Query must be at least 3 characters long'')), [])
      else
        let opts = (if options = JUndefined then JObj [] else options) in
        if nullish opts then
          (Inr (getAutocompleteSuggestions_catch (type_error ''Cannot read properties of null'')), [])
        else
          let req = Autocomplete (trim (js_to_string query))
                      (or_else (js_prop opts ''limit'') (JNum 5))
                      (if truthy (js_prop opts ''country'')
                       then Some (''countrycode:'' @ js_to_string (js_prop opts ''country''))
                       else None) in
          (case getAutocompleteSuggestions_try (upstream w req) of
             Inr r \<Rightarrow> (Inr r, [req])
           | Inl e \<Rightarrow> (Inr (getAutocompleteSuggestions_catch e), [req])))"

text \<open>
  \<^verbatim>\<open>DEFAULT_COORDINATES\<close> (Bhubaneswar), and the GeoJSON pair the controllers build from
  it: \<^verbatim>\<open>[DEFAULT_COORDINATES.lng, DEFAULT_COORDINATES.lat]\<close>.
\<close>

definition DEFAULT_COORDINATES_lat :: rat where
  "DEFAULT_COORDINATES_lat = 20296 / 1000"

definition DEFAULT_COORDINATES_lng :: rat where
  "DEFAULT_COORDINATES_lng = 858246 / 10000"

section \<open>The listing controllers\<close>

text \<open>
  \<^verbatim>\<open>createListing\<close> and \<^verbatim>\<open>updateListing\<close> of \<^verbatim>\<open>controllers/listings.js\<close>. The document
  store (mongoose) is outside the repository's code: what \<^verbatim>\<open>findByIdAndUpdate\<close> returns
  and whether \<^verbatim>\<open>save\<close> succeeds are inputs of the model. A listing keeps the fields the
  controllers read or write; \<^verbatim>\<open>geometry\<close> is the object \<^verbatim>\<open>{type, coordinates}\<close> or whatever
  the stored document holds there.
\<close>

datatype 'a outcome = Returns 'a | Throws js_error

record listing =
  l_location :: jsval
  l_country :: jsval
  l_geometry :: jsval
  l_image :: jsval
  l_owner :: jsval

definition point :: "jsval \<Rightarrow> jsval" where
  "point c = JObj [(''type'', JStr ''Point''), (''coordinates'', c)]"

definition default_point :: jsval where
  "default_point = point (JArr [JNum DEFAULT_COORDINATES_lng, JNum DEFAULT_COORDINATES_lat])"

text \<open>
  What a controller has done when it returns: the messages it flashed, in order, each with
  its kind; the redirect it sent; and the document \<^verbatim>\<open>save\<close> wrote, if \<^verbatim>\<open>save\<close> was reached and
  did not throw.
\<close>

record reply =
  flashes :: "(string \<times> string) list"
  redirect :: string
  saved :: "listing option"

text \<open>
  \<^verbatim>\<open>createListing\<close>. \<open>file\<close> is \<^verbatim>\<open>req.file\<close> as the pair of its \<^verbatim>\<open>path\<close> and \<^verbatim>\<open>filename\<close>, \<open>None\<close>
  when the upload left none (then \<^verbatim>\<open>req.file.path\<close> throws); \<open>loc\<close> and \<open>cntry\<close> are the
  \<^verbatim>\<open>location\<close> and \<^verbatim>\<open>country\<close> of \<^verbatim>\<open>req.body.listing\<close>; \<open>user\<close> is \<^verbatim>\<open>req.user._id\<close>. Where
  geocoding has succeeded the location is a string, so \<^verbatim>\<open>!==\<close> between it and the result's
  address is inequality of values.
\<close>

definition createListing_geocoded :: "listing \<Rightarrow> jsval \<Rightarrow> jsval \<Rightarrow> geo_result \<Rightarrow> listing \<times> (string \<times> string) list" where
  "createListing_geocoded newListing loc cntry geocodeResult =
     (if success geocodeResult then
        let l1 = newListing\<lparr>l_geometry := point (coordinates geocodeResult)\<rparr>;
            l2 = (if truthy (address geocodeResult) \<and> address geocodeResult \<noteq> loc
                  then l1\<lparr>l_location := address geocodeResult\<rparr> else l1);
            l3 = (if \<not> truthy cntry \<and> truthy (country geocodeResult)
                  then l2\<lparr>l_country := country geocodeResult\<rparr> else l2)
        in (l3, [(''success'', ''New Listing Created with location mapped successfully!'')])
      else
        (newListing\<lparr>l_geometry := default_point\<rparr>,
         [(''warning'', ''Listing created but location mapping failed: ''
              @ js_to_string (error geocodeResult)
              @ ''. Please update the address for accurate location display.'')]))"

definition createListing :: "world \<Rightarrow> (string \<times> string) option \<Rightarrow> jsval \<Rightarrow> jsval \<Rightarrow> jsval \<Rightarrow> unit outcome \<Rightarrow> reply" where
  "createListing w file loc cntry user save =
     (let failed = (\<lambda>fl. \<lparr>flashes = fl @ [(''error'', ''Failed to create listing. Please try again.'')],
                             redirect = ''/listings/new'', saved = None\<rparr>) in
      case file of
        None \<Rightarrow> failed []
      | Some (url, filename) \<Rightarrow>
          let newListing = \<lparr>l_location = loc, l_country = cntry, l_geometry = JUndefined,
                             l_image = JObj [(''url'', JStr url), (''filename'', JStr filename)],
                             l_owner = user\<rparr>
          in (case fst (geocodeAddress w loc) of
                Inl e \<Rightarrow> failed []
              | Inr geocodeResult \<Rightarrow>
                  let (doc, fl) = createListing_geocoded newListing loc cntry geocodeResult
                  in (case save of
                        Returns u \<Rightarrow> \<lparr>flashes = fl, redirect = ''/listings'', saved = Some doc\<rparr>
                      | Throws e \<Rightarrow> failed fl)))"

text \<open>
  \<^verbatim>\<open>updateListing\<close>. \<open>found\<close> is what \<^verbatim>\<open>findByIdAndUpdate\<close> does: it throws, finds nothing, or
  returns the document with the request's fields already applied. \<open>loc\<close> is
  \<^verbatim>\<open>req.body.listing.location\<close>.
\<close>

definition updateListing_geocoded :: "listing \<Rightarrow> jsval \<Rightarrow> geo_result \<Rightarrow> listing \<times> (string \<times> string) list" where
  "updateListing_geocoded lst loc geocodeResult =
     (if success geocodeResult then
        let l1 = lst\<lparr>l_geometry := point (coordinates geocodeResult)\<rparr>;
            l2 = (if truthy (address geocodeResult) \<and> address geocodeResult \<noteq> loc
                  then l1\<lparr>l_location := address geocodeResult\<rparr> else l1);
            l3 = (if \<not> truthy (l_country l2) \<and> truthy (country geocodeResult)
                  then l2\<lparr>l_country := country geocodeResult\<rparr> else l2)
        in (l3, [])
      else
        (if \<not> truthy (l_geometry lst) \<or> \<not> truthy (js_prop (l_geometry lst) ''coordinates'')
         then lst\<lparr>l_geometry := default_point\<rparr> else lst,
         [(''warning'', ''Listing updated but location mapping failed: ''
              @ js_to_string (error geocodeResult))]))"

definition updateListing_location :: "world \<Rightarrow> listing \<Rightarrow> jsval \<Rightarrow> js_error + listing \<times> (string \<times> string) list" where
  "updateListing_location w lst loc =
     (if truthy loc then
        (case fst (geocodeAddress w loc) of
           Inl e \<Rightarrow> Inl e
         | Inr geocodeResult \<Rightarrow> Inr (updateListing_geocoded lst loc geocodeResult))
      else Inr (lst, []))"

definition updateListing :: "world \<Rightarrow> string \<Rightarrow> listing option outcome \<Rightarrow> jsval \<Rightarrow> (string \<times> string) option \<Rightarrow> unit outcome \<Rightarrow> reply" where
  "updateListing w ident found loc file save =
     (let failed = (\<lambda>fl. \<lparr>flashes = fl @ [(''error'', ''Failed to update listing. Please try again.'')],
                             redirect = ''/listings/'' @ ident @ ''/edit'', saved = None\<rparr>) in
      case found of
        Throws e \<Rightarrow> failed []
      | Returns None \<Rightarrow>
          \<lparr>flashes = [(''error'', ''Listing not found'')], redirect = ''/listings'', saved = None\<rparr>
      | Returns (Some lst) \<Rightarrow>
          (case updateListing_location w lst loc of
             Inl e \<Rightarrow> failed []
           | Inr (l1, fl) \<Rightarrow>
               let doc = (case file of
                            None \<Rightarrow> l1
                          | Some (url, filename) \<Rightarrow>
                              l1\<lparr>l_image := JObj [(''url'', JStr url), (''filename'', JStr filename)]\<rparr>)
               in (case save of
                     Returns u \<Rightarrow> \<lparr>flashes = fl @ [(''success'', ''Listing Updated Successfully!'')],
                                   redirect = ''/listings/'' @ ident, saved = Some doc\<rparr>
                   | Throws e \<Rightarrow> failed fl)))"

subsection \<open>The address-suggestions endpoint\<close>

text \<open>
  \<^verbatim>\<open>getAddressSuggestions\<close>. \<open>token\<close> is \<^verbatim>\<open>process.env.MAP_TOKEN\<close>; \<open>query\<close> and \<open>cntry\<close> are
  the \<^verbatim>\<open>query\<close> and \<^verbatim>\<open>country\<close> of \<^verbatim>\<open>req.query\<close>. The response is its status and the object
  handed to \<^verbatim>\<open>res.json\<close>.
\<close>

record http_response =
  status :: nat
  body :: jsval

definition json_reply :: "nat \<Rightarrow> jsval \<Rightarrow> jsval \<Rightarrow> jsval \<Rightarrow> http_response" where
  "json_reply st ok sugg err =
     \<lparr>status = st, body = JObj [(''success'', ok), (''suggestions'', sugg), (''error'', err)]\<rparr>"

fun isArray :: "jsval \<Rightarrow> bool" where
  "isArray (JArr xs) = True"
| "isArray v = False"

text \<open>\<^verbatim>\<open>toLowerCase\<close>, on the letters of the ASCII range.\<close>

definition to_lower :: "char \<Rightarrow> char" where
  "to_lower c =
     (let n = (of_char c :: nat) in if 65 \<le> n \<and> n \<le> 90 then char_of (n + 32) else c)"

text \<open>
  From \<^verbatim>\<open>// Ensure result has proper structure\<close> to the end of the handler, for whatever the
  service call returned or threw: a thrown error, and a result that is not an object, end
  in the \<^verbatim>\<open>catch\<close>.
\<close>

definition suggestions_response :: "js_error + jsval \<Rightarrow> http_response" where
  "suggestions_response r =
     (case r of
        Inl e \<Rightarrow>
          json_reply 500 (JBool False) (JArr []) (JStr ''Failed to get address suggestions'')
      | Inr result \<Rightarrow>
          if truthy result \<and> typeof result = TObject then
            json_reply 200
              (or_else (js_prop result ''success'') (JBool False))
              (if isArray (js_prop result ''suggestions'') then js_prop result ''suggestions''
               else JArr [])
              (or_else (js_prop result ''error'') JNull)
          else
            json_reply 500 (JBool False) (JArr []) (JStr ''Failed to get address suggestions''))"

definition suggestion_options :: "jsval \<Rightarrow> jsval" where
  "suggestion_options cntry =
     (if truthy cntry \<and> typeof cntry = TString \<and> 0 < length (js_to_string cntry)
      then JObj [(''limit'', JNum 5), (''country'', JStr (map to_lower (js_to_string cntry)))]
      else JObj [(''limit'', JNum 5)])"

definition getAddressSuggestions_with ::
  "(jsval \<Rightarrow> jsval \<Rightarrow> (js_error + jsval) \<times> request list) \<Rightarrow> jsval \<Rightarrow> jsval \<Rightarrow> jsval \<Rightarrow> http_response \<times> request list" where
  "getAddressSuggestions_with service token query cntry =
     (if \<not> truthy query \<or> typeof query \<noteq> TString then
        (json_reply 400 (JBool False) (JArr [])
           (JStr ''Query parameter is required and must be a string''), [])
      else if length (js_to_string query) < 2 then
        (json_reply 400 (JBool False) (JArr [])
           (JStr ''Query must be at least 2 characters long''), [])
      else if 200 < length (js_to_string query) then
        (json_reply 400 (JBool False) (JArr []) (JStr ''Query is too long''), [])
      else if \<not> truthy token then
        (json_reply 500 (JBool False) (JArr []) (JStr ''Geocoding service not available''), [])
      else
        let (r, reqs) = service (JStr (trim (js_to_string query))) (suggestion_options cntry)
        in (suggestions_response r, reqs))"

definition getAddressSuggestions :: "world \<Rightarrow> jsval \<Rightarrow> jsval \<Rightarrow> jsval \<Rightarrow> http_response \<times> request list" where
  "getAddressSuggestions w token query cntry =
     getAddressSuggestions_with (getAutocompleteSuggestions w) token query cntry"

section \<open>The browser side\<close>

text \<open>
  The two classes that run in the page: \<^verbatim>\<open>ListingMap\<close> (the map, its markers and popups) and
  \<^verbatim>\<open>AddressAutocomplete\<close> (the suggestion list under the location input). Both call
  \<^verbatim>\<open>fetch\<close>. A fetch settles in one of three ways: with a response (its status, its status
  text and its body, which \<^verbatim>\<open>response.json()\<close> parses or rejects with a SyntaxError of some
  message), aborted by the timeout's AbortController, or failed in the network.
\<close>

datatype 'a fetch_body = Json 'a | BadJson string

datatype 'a fetch_outcome = Response nat string "'a fetch_body" | Aborted | Failed string

text \<open>\<^verbatim>\<open>response.ok\<close>.\<close>

definition response_ok :: "nat \<Rightarrow> bool" where
  "response_ok st = (200 \<le> st \<and> st \<le> 299)"

text \<open>\<^verbatim>\<open>new Error(`HTTP ${response.status}: ${response.statusText}`)\<close>.\<close>

definition http_error :: "nat \<Rightarrow> string \<Rightarrow> js_error" where
  "http_error st txt =
     \<lparr>err_name = ''Error'', err_message = ''HTTP '' @ int_string (int st) @ '': '' @ txt,
      err_status = None\<rparr>"

definition abort_error :: js_error where
  "abort_error = \<lparr>err_name = ''AbortError'', err_message = ''The user aborted a request.'',
                  err_status = None\<rparr>"

definition syntax_error :: "string \<Rightarrow> js_error" where
  "syntax_error m = \<lparr>err_name = ''SyntaxError'', err_message = m, err_status = None\<rparr>"

subsection \<open>ListingMap\<close>

text \<open>
  The map object: its API key and options, the listing's marker, the temporary markers a
  click has added and not yet removed, and the popup that is open. Coordinates on the map
  come from Leaflet and are numbers.
\<close>

datatype popup =
    MarkerPopup rat rat
  | LoadingPopup rat rat
  | CandidatePopup rat rat string jsval
  | ErrorPopup rat rat

record listing_map =
  apiKey :: string
  enableClickGeocoding :: bool
  retryAttempts :: nat
  retryDelay :: nat
  marker :: "(rat \<times> rat) option"
  tempMarkers :: "(rat \<times> rat) list"
  popup :: "popup option"
  center :: "(rat \<times> rat) option"

text \<open>
  \<^verbatim>\<open>ListingMap.reverseGeocode(lat, lng, attempt)\<close>. One invocation, once its fetch has
  settled, either returns a value (\<open>JNull\<close> for \<^verbatim>\<open>null\<close>) or waits \<^verbatim>\<open>retryDelay * attempt\<close> and
  returns what the invocation for \<open>attempt + 1\<close> returns. Every exception of the \<^verbatim>\<open>try\<close>
  block, also the TypeError of \<^verbatim>\<open>data.results\<close> on a body that is \<^verbatim>\<open>null\<close> and of
  \<^verbatim>\<open>results[0].formatted\<close> on an element that is, goes through \<open>lm_catch\<close>, the \<^verbatim>\<open>catch\<close>.
\<close>

datatype attempt_result = Return jsval | Retry

definition lm_catch :: "listing_map \<Rightarrow> nat \<Rightarrow> js_error \<Rightarrow> attempt_result" where
  "lm_catch m attempt e =
     (if err_name e = ''AbortError'' then Return JNull
      else if attempt \<le> retryAttempts m \<and> \<not> str_includes (err_message e) ''429'' then Retry
      else Return JNull)"

definition lm_attempt :: "(jsval \<Rightarrow> rat option) \<Rightarrow> listing_map \<Rightarrow> rat \<Rightarrow> rat \<Rightarrow> nat \<Rightarrow> jsval fetch_outcome \<Rightarrow> attempt_result" where
  "lm_attempt tn m lat lng attempt out =
     (case out of
        Response st txt b \<Rightarrow>
          if \<not> response_ok st then
            (if st = 429 \<and> attempt \<le> retryAttempts m then Retry
             else lm_catch m attempt (http_error st txt))
          else
            (case b of
               BadJson msg \<Rightarrow> lm_catch m attempt (syntax_error msg)
             | Json data \<Rightarrow>
                 if nullish data then lm_catch m attempt (type_error ''Cannot read properties of null'')
                 else if truthy (js_prop data ''results'')
                         \<and> gt0 tn (js_prop (js_prop data ''results'') ''length'')
                 then
                   (if nullish (index0 (js_prop data ''results''))
                    then lm_catch m attempt (type_error ''Cannot read properties of undefined'')
                    else Return (js_prop (index0 (js_prop data ''results'')) ''formatted''))
                 else Return (JStr (''Location: '' @ toFixed lat 4 @ '', '' @ toFixed lng 4)))
      | Aborted \<Rightarrow> lm_catch m attempt abort_error
      | Failed msg \<Rightarrow> lm_catch m attempt (type_error msg))"

lemma lm_attempt_Retry: "lm_attempt tn m lat lng attempt out = Retry \<Longrightarrow> attempt \<le> retryAttempts m"
  by (auto simp: lm_attempt_def lm_catch_def split: fetch_outcome.splits fetch_body.splits if_splits)

text \<open>
  The whole call: \<open>net k\<close> is how the fetch of attempt \<open>k\<close> settles, and the second component
  lists the attempts that sent a request, in order.
\<close>

function lm_reverseGeocode :: "(jsval \<Rightarrow> rat option) \<Rightarrow> listing_map \<Rightarrow> (nat \<Rightarrow> jsval fetch_outcome) \<Rightarrow> rat \<Rightarrow> rat \<Rightarrow> nat \<Rightarrow> jsval \<times> nat list" where
  "lm_reverseGeocode tn m net lat lng attempt =
     (if apiKey m = [] then (JNull, [])
      else
        (case lm_attempt tn m lat lng attempt (net attempt) of
           Return v \<Rightarrow> (v, [attempt])
         | Retry \<Rightarrow>
             (let (v, reqs) = lm_reverseGeocode tn m net lat lng (attempt + 1)
              in (v, attempt # reqs))))"
  by pat_completeness auto
termination
  by (relation "measure (\<lambda>(tn, m, net, lat, lng, attempt). Suc (retryAttempts m) - attempt)")
     (auto dest: lm_attempt_Retry)

declare lm_reverseGeocode.simps [simp del]




text \<open>
  \<^verbatim>\<open>addMarker\<close> as \<^verbatim>\<open>setLocation\<close> calls it, and \<^verbatim>\<open>centerMap\<close>: the part of \<^verbatim>\<open>setLocation\<close> that
  acts on the map.
\<close>

definition lm_setLocation :: "rat \<Rightarrow> rat \<Rightarrow> listing_map \<Rightarrow> listing_map" where
  "lm_setLocation lat lng m =
     m\<lparr>marker := Some (lat, lng), popup := Some (MarkerPopup lat lng), center := Some (lat, lng)\<rparr>"

subsection \<open>AddressAutocomplete\<close>

text \<open>
  A suggestion as the endpoint above serialises it: \<^verbatim>\<open>coordinates\<close> is the pair
  \<^verbatim>\<open>[lon, lat]\<close>, each a number or \<^verbatim>\<open>null\<close>, and \<open>None\<close> where the property is missing.
\<close>

record suggestion =
  s_address :: string
  s_coordinates :: "(jsval \<times> jsval) option"
  s_country :: string
  s_city :: string
  s_state :: string

text \<open>
  The parsed body of the endpoint's response: \<^verbatim>\<open>{success, suggestions, error}\<close>, where
  \<^verbatim>\<open>suggestions\<close> is an array (hence truthy) and \<^verbatim>\<open>error\<close> a string or \<^verbatim>\<open>null\<close>.
\<close>

record suggestions_body =
  b_success :: bool
  b_suggestions :: "suggestion list"
  b_error :: "string option"

text \<open>What the dropdown \<^verbatim>\<open>suggestionsList\<close> holds.\<close>

datatype list_content =
    Blank
  | LoadingItem
  | Items "suggestion list"
  | NoResultsItem
  | ErrorItem string

text \<open>
  An invocation of \<^verbatim>\<open>fetchSuggestions\<close> that has passed the guard and is suspended at an
  \<^verbatim>\<open>await\<close>: on its fetch, or on the delay before a retry.
\<close>

datatype phase = AwaitingFetch | AwaitingDelay

record task =
  t_query :: string
  t_attempt :: nat
  t_phase :: phase

text \<open>
  The page: the form fields the two classes write (\<open>None\<close> where the page has no such
  input), the fields of the \<^verbatim>\<open>AddressAutocomplete\<close> object, the query the pending debounce
  timer will fetch, the suspended invocation, and \<^verbatim>\<open>window.listingMap\<close>. Three logs record
  what has left the object: \<open>sent\<close> the fetches issued (the \<^verbatim>\<open>query\<close> and \<^verbatim>\<open>country\<close>
  parameters, the latter empty when it is omitted), \<open>waits\<close> the retry delays awaited in
  milliseconds, \<open>reported\<close> the errors handed to \<^verbatim>\<open>options.onError\<close>, and \<open>searches\<close> the
  addresses handed to \<^verbatim>\<open>listingMap.searchAndSetLocation\<close>.
\<close>

record page =
  input_value :: string
  countryField :: "string option"
  latField :: "string option"
  lngField :: "string option"
  minLength :: nat
  isLoading :: bool
  suggestions :: "suggestion list"
  currentIndex :: int
  listContent :: list_content
  visible :: bool
  debounceTimer :: "string option"
  task :: "task option"
  sent :: "(string \<times> string) list"
  waits :: "nat list"
  reported :: "js_error list"
  listingMap :: "listing_map option"
  searches :: "string list"

definition showLoading :: "page \<Rightarrow> page" where
  "showLoading p = p\<lparr>listContent := LoadingItem, visible := True\<rparr>"

definition showNoResults :: "page \<Rightarrow> page" where
  "showNoResults p = p\<lparr>listContent := NoResultsItem, visible := True\<rparr>"

definition showError :: "string \<Rightarrow> page \<Rightarrow> page" where
  "showError msg p = p\<lparr>listContent := ErrorItem msg, visible := True\<rparr>"

definition hideSuggestions :: "page \<Rightarrow> page" where
  "hideSuggestions p = p\<lparr>visible := False, currentIndex := - 1\<rparr>"

definition displaySuggestions :: "page \<Rightarrow> page" where
  "displaySuggestions p =
     (if suggestions p = [] then showNoResults p
      else p\<lparr>listContent := Items (suggestions p), currentIndex := - 1, visible := True\<rparr>)"

text \<open>
  \<^verbatim>\<open>onInput\<close>: the typed text is in the input; a query shorter than \<^verbatim>\<open>minLength\<close> hides the
  list and leaves the timer as it is, any other query replaces the timer.
\<close>

definition onInput :: "string \<Rightarrow> page \<Rightarrow> page" where
  "onInput raw p =
     (let p1 = p\<lparr>input_value := raw\<rparr>; query = trim raw in
      if length query < minLength p1 then hideSuggestions p1
      else p1\<lparr>debounceTimer := Some query\<rparr>)"

text \<open>
  \<^verbatim>\<open>fetchSuggestions(query, attempt)\<close> from its call to its first \<^verbatim>\<open>await\<close>: the guard on
  \<^verbatim>\<open>isLoading\<close>, and past it the loading row and the fetch.
\<close>

definition fetchSuggestions_call :: "string \<Rightarrow> nat \<Rightarrow> page \<Rightarrow> page" where
  "fetchSuggestions_call query attempt p =
     (if isLoading p then p
      else
        (showLoading (p\<lparr>isLoading := True\<rparr>))
          \<lparr>sent := sent p @ [(query, case countryField p of Some v \<Rightarrow> v | None \<Rightarrow> [])],
           task := Some \<lparr>t_query = query, t_attempt = attempt, t_phase = AwaitingFetch\<rparr>\<rparr>)"

text \<open>The \<^verbatim>\<open>finally\<close> block, and the end of the invocation.\<close>

definition fetch_finally :: "page \<Rightarrow> page" where
  "fetch_finally p = p\<lparr>isLoading := False, task := None\<rparr>"

text \<open>The wait before a retry: \<^verbatim>\<open>await new Promise(resolve => setTimeout(resolve, 1000 * attempt))\<close>.\<close>

definition fetch_wait :: "string \<Rightarrow> nat \<Rightarrow> page \<Rightarrow> page" where
  "fetch_wait query attempt p =
     p\<lparr>waits := waits p @ [1000 * attempt],
       task := Some \<lparr>t_query = query, t_attempt = attempt, t_phase = AwaitingDelay\<rparr>\<rparr>"

text \<open>The \<^verbatim>\<open>catch\<close> block; its retry branch returns before \<^verbatim>\<open>onError\<close> is called.\<close>

definition fetch_catch :: "string \<Rightarrow> nat \<Rightarrow> js_error \<Rightarrow> page \<Rightarrow> page" where
  "fetch_catch query attempt e p =
     (if err_name e = ''AbortError'' then
        fetch_finally
          ((showError ''Request timed out. Please try again.'' p)\<lparr>reported := reported p @ [e]\<rparr>)
      else if attempt \<le> 2 \<and> \<not> str_includes (err_message e) ''429'' then
        fetch_wait query attempt p
      else
        fetch_finally
          ((showError ''Unable to load suggestions. Please check your connection.'' p)
             \<lparr>reported := reported p @ [e]\<rparr>))"

text \<open>The invocation resumes when its fetch has settled.\<close>

definition fetch_settled :: "string \<Rightarrow> nat \<Rightarrow> suggestions_body fetch_outcome \<Rightarrow> page \<Rightarrow> page" where
  "fetch_settled query attempt out p =
     (case out of
        Response st txt b \<Rightarrow>
          if \<not> response_ok st then
            (if st = 429 \<and> attempt \<le> 2 then fetch_wait query attempt p
             else fetch_catch query attempt (http_error st txt) p)
          else
            (case b of
               BadJson msg \<Rightarrow> fetch_catch query attempt (syntax_error msg) p
             | Json data \<Rightarrow>
                 fetch_finally
                   (if b_success data
                    then displaySuggestions (p\<lparr>suggestions := b_suggestions data\<rparr>)
                    else showError (case b_error data of
                                      Some msg \<Rightarrow> if msg = [] then ''No suggestions found'' else msg
                                    | None \<Rightarrow> ''No suggestions found'') p))
      | Aborted \<Rightarrow> fetch_catch query attempt abort_error p
      | Failed msg \<Rightarrow> fetch_catch query attempt (type_error msg) p)"

text \<open>
  The invocation resumes when the delay has passed: \<^verbatim>\<open>return this.fetchSuggestions(query,
  attempt + 1)\<close> runs the inner call up to its first \<^verbatim>\<open>await\<close>, and then the outer \<^verbatim>\<open>finally\<close>
  runs.
\<close>

definition fetch_delayed :: "string \<Rightarrow> nat \<Rightarrow> page \<Rightarrow> page" where
  "fetch_delayed query attempt p =
     (fetchSuggestions_call query (attempt + 1) (p\<lparr>task := None\<rparr>))\<lparr>isLoading := False\<rparr>"

text \<open>
  Assigning to the \<^verbatim>\<open>value\<close> of an input converts to a string, \<^verbatim>\<open>null\<close> to the empty one.
\<close>

definition dom_string :: "jsval \<Rightarrow> string" where
  "dom_string v = (if v = JNull then [] else js_to_string v)"

text \<open>
  \<^verbatim>\<open>updateRelatedFields\<close>: the country input is written only when it exists, the suggestion
  has a country and the input is empty; the two coordinate inputs are written whenever
  they exist and the suggestion has coordinates.
\<close>

definition updateRelatedFields :: "suggestion \<Rightarrow> page \<Rightarrow> page" where
  "updateRelatedFields sg p =
     (let p1 = (case countryField p of
                  Some v \<Rightarrow> if s_country sg \<noteq> [] \<and> v = []
                            then p\<lparr>countryField := Some (s_country sg)\<rparr> else p
                | None \<Rightarrow> p)
      in case s_coordinates sg of
           Some (lng, lat) \<Rightarrow>
             p1\<lparr>latField := map_option (\<lambda>old. dom_string lat) (latField p1),
                lngField := map_option (\<lambda>old. dom_string lng) (lngField p1)\<rparr>
         | None \<Rightarrow> p1)"

text \<open>
  \<^verbatim>\<open>ListingMap.updateLocationFields\<close> and \<^verbatim>\<open>ListingMap.setLocation\<close>, on the page. The
  location input is the one the autocomplete is attached to.
\<close>

definition updateLocationFields :: "rat \<Rightarrow> rat \<Rightarrow> string \<Rightarrow> page \<Rightarrow> page" where
  "updateLocationFields lat lng addr p =
     p\<lparr>input_value := (if addr \<noteq> [] then addr else input_value p),
       latField := map_option (\<lambda>old. rat_string lat) (latField p),
       lngField := map_option (\<lambda>old. rat_string lng) (lngField p)\<rparr>"

definition setLocation :: "rat \<Rightarrow> rat \<Rightarrow> string \<Rightarrow> page \<Rightarrow> page" where
  "setLocation lat lng addr p =
     updateLocationFields lat lng addr
       (p\<lparr>listingMap := map_option (lm_setLocation lat lng) (listingMap p)\<rparr>)"

text \<open>
  \<^verbatim>\<open>updateMapLocation\<close>. With a map and coordinates, the map is moved when both coordinates
  are numbers in range (\<open>in_range\<close>; a comparison with NaN is false); with a map and no
  coordinates,
  the address goes to \<^verbatim>\<open>searchAndSetLocation\<close>, whose request and later effect are not
  part of the model.
\<close>

definition in_range :: "rat \<Rightarrow> rat \<Rightarrow> bool" where
  "in_range lat lng = (- 90 \<le> lat \<and> lat \<le> 90 \<and> - 180 \<le> lng \<and> lng \<le> 180)"

definition updateMapLocation :: "suggestion \<Rightarrow> page \<Rightarrow> page" where
  "updateMapLocation sg p =
     (if listingMap p = None then p
      else
        (case s_coordinates sg of
           Some (lng, lat) \<Rightarrow>
             (case (lat, lng) of
                (JNum a, JNum b) \<Rightarrow>
                  if in_range a b then setLocation a b (s_address sg) p else p
              | _ \<Rightarrow> p)
         | None \<Rightarrow> p\<lparr>searches := searches p @ [s_address sg]\<rparr>))"

text \<open>\<^verbatim>\<open>selectSuggestion(index)\<close>.\<close>

definition selectSuggestion :: "nat \<Rightarrow> page \<Rightarrow> page" where
  "selectSuggestion i p =
     (if i < length (suggestions p) then
        let sg = suggestions p ! i in
        updateMapLocation sg
          (hideSuggestions (updateRelatedFields sg (p\<lparr>input_value := s_address sg\<rparr>)))
      else p)"

text \<open>
  What can happen to the page, one event at a time: the user types, the debounce timer
  fires, the fetch of the suspended invocation settles, the retry delay of the suspended
  invocation passes, the user picks a suggestion.
\<close>

datatype event =
    Input string
  | TimerFires
  | FetchSettles "suggestions_body fetch_outcome"
  | DelayPasses
  | Select nat

fun step :: "page \<Rightarrow> event \<Rightarrow> page" where
  "step p (Input raw) = onInput raw p"
| "step p TimerFires =
     (case debounceTimer p of
        None \<Rightarrow> p
      | Some query \<Rightarrow> fetchSuggestions_call query 1 (p\<lparr>debounceTimer := None\<rparr>))"
| "step p (FetchSettles out) =
     (case task p of
        None \<Rightarrow> p
      | Some t \<Rightarrow> if t_phase t = AwaitingFetch
                  then fetch_settled (t_query t) (t_attempt t) out p else p)"
| "step p DelayPasses =
     (case task p of
        None \<Rightarrow> p
      | Some t \<Rightarrow> if t_phase t = AwaitingDelay
                  then fetch_delayed (t_query t) (t_attempt t) p else p)"
| "step p (Select i) = selectSuggestion i p"

definition run :: "page \<Rightarrow> event list \<Rightarrow> page" where
  "run p evs = foldl step p evs"

text \<open>
  The page after \<^verbatim>\<open>new AddressAutocomplete(...)\<close> with the default options, on a form with
  all four inputs empty and no map.
\<close>

definition new_page :: page where
  "new_page =
     \<lparr>input_value = [], countryField = Some [], latField = Some [], lngField = Some [],
      minLength = 2, isLoading = False, suggestions = [], currentIndex = - 1,
      listContent = Blank, visible = False, debounceTimer = None, task = None,
      sent = [], waits = [], reported = [], listingMap = None, searches = []\<rparr>"

section \<open>Concrete inputs\<close>

text \<open>
  A provider that answers every request with an empty result set, one that answers every
  request with HTTP 503, and one that answers every request with the single result of the
  specification's Baker Street scenario. In each, ToNumber of a string or an object is
  NaN (\<open>no_number\<close>); no concrete input below reaches it.
\<close>

definition no_number :: "jsval \<Rightarrow> rat option" where
  "no_number v = None"

definition provider_empty :: world where
  "provider_empty =
     \<lparr>upstream = (\<lambda>req. Resolves (JObj [(''results'', JArr [])])), to_number = no_number\<rparr>"

definition provider_down :: world where
  "provider_down =
     \<lparr>upstream = (\<lambda>req. Rejects \<lparr>err_name = ''AxiosError'',
                          err_message = ''Request failed with status code 503'',
                          err_status = Some 503\<rparr>),
      to_number = no_number\<rparr>"

definition provider_baker :: world where
  "provider_baker =
     \<lparr>upstream = (\<lambda>req. Resolves (JObj [(''results'',
          JArr [JObj [(''lon'', JNum (- 1586 / 10000)), (''lat'', JNum (515237 / 10000)),
                      (''formatted'', JStr ''221B Baker St, London, UK''),
                      (''country'', JStr ''United Kingdom'')]])])),
      to_number = no_number\<rparr>"

text \<open>
  A map on an edit page (click geocoding enabled, an API key, the default retry options)
  with nothing on it yet, and a network in which every reverse lookup finds nothing.
\<close>

definition click_map :: listing_map where
  "click_map =
     \<lparr>apiKey = ''key'', enableClickGeocoding = True, retryAttempts = 3, retryDelay = 1000,
      marker = None, tempMarkers = [], popup = None, center = None\<rparr>"

definition net_empty :: "nat \<Rightarrow> jsval fetch_outcome" where
  "net_empty k = Response 200 ''OK'' (Json (JObj [(''results'', JArr [])]))"

text \<open>A stored listing that has a geometry, as \<^verbatim>\<open>findByIdAndUpdate\<close> returns it.\<close>

definition stored_listing :: listing where
  "stored_listing =
     \<lparr>l_location = JStr ''Nowhere'', l_country = JStr ''India'',
      l_geometry = point (JArr [JNum (772 / 10), JNum (286 / 10)]),
      l_image = JNull, l_owner = JStr ''u1''\<rparr>"

text \<open>
  One suggestion, the endpoint's response that carries it, and a page whose country and
  coordinate inputs the user has filled and whose list holds the suggestion.
\<close>

definition paris :: suggestion where
  "paris = \<lparr>s_address = ''Paris, France'',
             s_coordinates = Some (JNum (47 / 20), JNum (977 / 20)),
             s_country = ''France'', s_city = ''Paris'', s_state = []\<rparr>"

definition paris_response :: "suggestions_body fetch_outcome" where
  "paris_response =
     Response 200 ''OK'' (Json \<lparr>b_success = True, b_suggestions = [paris], b_error = None\<rparr>)"

definition filled_page :: page where
  "filled_page = new_page\<lparr>countryField := Some ''Belgium'', latField := Some ''1.5'',
                           lngField := Some ''2.5'', suggestions := [paris]\<rparr>"

subsection \<open>The fallback label as the specification words it\<close>

text \<open>
  The specification describes the label of a reverse lookup without results as
  \<^verbatim>\<open>"lat, lng"\<close> rounded to 4 decimals. This definition follows those words, not the code; it
  is what the code's label is compared with.
\<close>

definition spec_rounded_label :: "rat \<Rightarrow> rat \<Rightarrow> string" where
  "spec_rounded_label lat lng = toFixed lat 4 @ '', '' @ toFixed lng 4"

section \<open>Properties of the geocoding service\<close>

lemma getAutocompleteSuggestions_try_result:
  "getAutocompleteSuggestions_try out = Inr r \<Longrightarrow>
     \<exists>ok xs e. r = ac_result ok xs e \<and> (e = JNull \<or> (\<exists>s. e = JStr s)) \<and> (\<not> ok \<longrightarrow> xs = [])"
  unfolding getAutocompleteSuggestions_try_def
  by (cases out) (auto split: if_splits jsval.splits)

lemma getAutocompleteSuggestions_result:
  "\<exists>ok xs e. fst (getAutocompleteSuggestions w query options) = Inr (ac_result ok xs e)
       \<and> (e = JNull \<or> (\<exists>s. e = JStr s)) \<and> (\<not> ok \<longrightarrow> xs = [])"
proof (cases "getAutocompleteSuggestions_try (upstream w (Autocomplete (trim (js_to_string query))
                    (or_else (js_prop (if options = JUndefined then JObj [] else options) ''limit'') (JNum 5))
                    (if truthy (js_prop (if options = JUndefined then JObj [] else options) ''country'')
                     then Some (''countrycode:''
                            @ js_to_string (js_prop (if options = JUndefined then JObj [] else options) ''country''))
                     else None)))")
  case (Inl e)
  then show ?thesis
    by (simp add: getAutocompleteSuggestions_def getAutocompleteSuggestions_catch_def Let_def) blast
next
  case (Inr r)
  then obtain ok xs e where "r = ac_result ok xs e" "e = JNull \<or> (\<exists>s. e = JStr s)" "\<not> ok \<longrightarrow> xs = []"
    using getAutocompleteSuggestions_try_result by blast
  with Inr show ?thesis
    by (simp add: getAutocompleteSuggestions_def getAutocompleteSuggestions_catch_def Let_def) blast
qed

text \<open>
  C8. Whatever the input and however the provider's request settles (a response body of
  any shape, an HTTP error status, a timeout or a network failure, which are rejections
  with or without a status), each of \<^verbatim>\<open>geocodeAddress\<close>, \<^verbatim>\<open>reverseGeocode\<close> and
  \<^verbatim>\<open>getAutocompleteSuggestions\<close> returns a result object and throws nothing: the exceptions
  raised inside the \<^verbatim>\<open>try\<close> blocks all end in the \<^verbatim>\<open>catch\<close>.
\<close>

theorem service_never_throws:
  "(\<exists>r. fst (geocodeAddress w addr) = Inr r) \<and>
   (\<exists>r. fst (reverseGeocode w lat lng) = Inr r) \<and>
   (\<exists>ok xs e. fst (getAutocompleteSuggestions w query options) = Inr (ac_result ok xs e))"
proof (intro conjI)
  show "\<exists>r. fst (geocodeAddress w addr) = Inr r"
    by (simp add: geocodeAddress_def Let_def split: sum.splits)
  show "\<exists>r. fst (reverseGeocode w lat lng) = Inr r"
    by (simp add: reverseGeocode_def Let_def split: sum.splits)
  show "\<exists>ok xs e. fst (getAutocompleteSuggestions w query options) = Inr (ac_result ok xs e)"
    using getAutocompleteSuggestions_result [of w query options] by blast
qed

theorem service_never_throws_witness:
  "(\<exists>r. fst (geocodeAddress provider_down (JStr ''221B Baker Street, London'')) = Inr r) \<and>
   (\<exists>r. fst (reverseGeocode provider_down (JNum (25 / 2)) (JNum (225 / 4))) = Inr r) \<and>
   (\<exists>ok xs e. fst (getAutocompleteSuggestions provider_down (JStr ''Baker'') (JObj [(''limit'', JNum 5)]))
                 = Inr (ac_result ok xs e))"
  using service_never_throws [of provider_down "JStr ''221B Baker Street, London''"
      "JNum (25 / 2)" "JNum (225 / 4)" "JStr ''Baker''" "JObj [(''limit'', JNum 5)]"]
  by simp

text \<open>
  C9. \<^verbatim>\<open>reverseGeocode(lat, lng)\<close> with a latitude or longitude that is 0, or falsy in any
  other way, returns the failure "Invalid coordinates provided" and sends no request,
  although the point (0, 0) lies within the coordinate ranges that \<^verbatim>\<open>updateMapLocation\<close>
  accepts.
\<close>

theorem reverseGeocode_rejects_zero:
  assumes "lat = JNum 0 \<or> lng = JNum 0 \<or> \<not> truthy lat \<or> \<not> truthy lng"
  shows "reverseGeocode w lat lng =
           (Inr \<lparr>success = False, coordinates = JUndefined, address = JNull,
                  country = JUndefined, city = JUndefined, state = JUndefined,
                  error = JStr ''Invalid coordinates provided''\<rparr>, [])
         \<and> in_range 0 0"
  using assms by (auto simp: reverseGeocode_def invalid_coordinates_def in_range_def)

theorem reverseGeocode_rejects_zero_witness:
  "reverseGeocode provider_empty (JNum 0) (JNum 10) =
           (Inr \<lparr>success = False, coordinates = JUndefined, address = JNull,
                  country = JUndefined, city = JUndefined, state = JUndefined,
                  error = JStr ''Invalid coordinates provided''\<rparr>, [])
   \<and> in_range 0 0"
  using reverseGeocode_rejects_zero [of "JNum 0" "JNum 10" provider_empty] by simp

lemma or_else_label_not_nullish: "\<not> nullish (or_else v (coords_label lat lng))"
  by (cases v) (auto simp: or_else_def coords_label_def)

text \<open>
  C3, as the code has it. A result of \<^verbatim>\<open>geocodeAddress\<close> has \<^verbatim>\<open>success\<close> exactly when its
  \<^verbatim>\<open>coordinates\<close> are not null. A result of \<^verbatim>\<open>reverseGeocode\<close> with \<^verbatim>\<open>success\<close> has an \<^verbatim>\<open>address\<close>
  that is not null, but not conversely: the \<^verbatim>\<open>address\<close> is null exactly when the guard
  rejected the coordinates, and every later failure carries the label \<^verbatim>\<open>`${lat}, ${lng}`\<close>.
  In both, \<^verbatim>\<open>error\<close> is null exactly when \<^verbatim>\<open>success\<close> holds.
\<close>

theorem geocode_result_invariant:
  "(\<exists>r. fst (geocodeAddress w addr) = Inr r
        \<and> (success r \<longleftrightarrow> \<not> nullish (coordinates r))
        \<and> (error r = JNull \<longleftrightarrow> success r)) \<and>
   (\<exists>r. fst (reverseGeocode w lat lng) = Inr r
        \<and> (success r \<longrightarrow> \<not> nullish (address r))
        \<and> (nullish (address r) \<longleftrightarrow> invalid_coordinates lat lng)
        \<and> (\<not> success r \<longrightarrow>
              address r = (if invalid_coordinates lat lng then JNull else coords_label lat lng))
        \<and> (error r = JNull \<longleftrightarrow> success r))"
proof (intro conjI)
  show "\<exists>r. fst (geocodeAddress w addr) = Inr r
        \<and> (success r \<longleftrightarrow> \<not> nullish (coordinates r))
        \<and> (error r = JNull \<longleftrightarrow> success r)"
    by (auto simp: geocodeAddress_def geocodeAddress_try_def geocodeAddress_catch_def Let_def
        split: sum.splits axios_outcome.splits if_splits)
  have label: "\<not> nullish (coords_label lat lng)"
    by (simp add: coords_label_def)
  show "\<exists>r. fst (reverseGeocode w lat lng) = Inr r
        \<and> (success r \<longrightarrow> \<not> nullish (address r))
        \<and> (nullish (address r) \<longleftrightarrow> invalid_coordinates lat lng)
        \<and> (\<not> success r \<longrightarrow>
              address r = (if invalid_coordinates lat lng then JNull else coords_label lat lng))
        \<and> (error r = JNull \<longleftrightarrow> success r)"
    using or_else_label_not_nullish label
    by (auto simp: reverseGeocode_def reverseGeocode_try_def reverseGeocode_catch_def Let_def
        split: sum.splits axios_outcome.splits if_splits)
qed

theorem geocode_result_invariant_witness:
  "((\<exists>r. fst (geocodeAddress provider_baker (JStr ''221B Baker Street, London'')) = Inr r
        \<and> (success r \<longleftrightarrow> \<not> nullish (coordinates r))
        \<and> (error r = JNull \<longleftrightarrow> success r)) \<and>
    (\<exists>r. fst (reverseGeocode provider_baker (JNum (515237 / 10000)) (JNum (- 1586 / 10000))) = Inr r
        \<and> (success r \<longrightarrow> \<not> nullish (address r))
        \<and> (nullish (address r) \<longleftrightarrow> invalid_coordinates (JNum (515237 / 10000)) (JNum (- 1586 / 10000)))
        \<and> (\<not> success r \<longrightarrow>
              address r = (if invalid_coordinates (JNum (515237 / 10000)) (JNum (- 1586 / 10000))
                           then JNull
                           else coords_label (JNum (515237 / 10000)) (JNum (- 1586 / 10000))))
        \<and> (error r = JNull \<longleftrightarrow> success r)))
   \<and> fst (geocodeAddress provider_baker (JStr ''221B Baker Street, London''))
       = Inr \<lparr>success = True, coordinates = JArr [JNum (- 1586 / 10000), JNum (515237 / 10000)],
              address = JStr ''221B Baker St, London, UK'', country = JStr ''United Kingdom'',
              city = JStr [], state = JStr [], error = JNull\<rparr>
   \<and> fst (reverseGeocode provider_baker (JNum (515237 / 10000)) (JNum (- 1586 / 10000)))
       = Inr \<lparr>success = True, coordinates = JUndefined,
              address = JStr ''221B Baker St, London, UK'', country = JStr ''United Kingdom'',
              city = JStr [], state = JStr [], error = JNull\<rparr>
   \<and> (\<exists>r. fst (reverseGeocode provider_down (JNum (515237 / 10000)) (JNum (- 1586 / 10000))) = Inr r
        \<and> \<not> success r
        \<and> \<not> invalid_coordinates (JNum (515237 / 10000)) (JNum (- 1586 / 10000))
        \<and> address r = coords_label (JNum (515237 / 10000)) (JNum (- 1586 / 10000))
        \<and> coords_label (JNum (515237 / 10000)) (JNum (- 1586 / 10000)) = JStr ''51.5237, -0.1586''
        \<and> error r = JStr ''Reverse geocoding failed: Request failed with status code 503'')"
proof -
  have "fst (geocodeAddress provider_baker (JStr ''221B Baker Street, London''))
       = Inr \<lparr>success = True, coordinates = JArr [JNum (- 1586 / 10000), JNum (515237 / 10000)],
              address = JStr ''221B Baker St, London, UK'', country = JStr ''United Kingdom'',
              city = JStr [], state = JStr [], error = JNull\<rparr>"
    by code_simp
  moreover have "fst (reverseGeocode provider_baker (JNum (515237 / 10000)) (JNum (- 1586 / 10000)))
       = Inr \<lparr>success = True, coordinates = JUndefined,
              address = JStr ''221B Baker St, London, UK'', country = JStr ''United Kingdom'',
              city = JStr [], state = JStr [], error = JNull\<rparr>"
    by code_simp
  moreover have valid: "\<not> invalid_coordinates (JNum (515237 / 10000)) (JNum (- 1586 / 10000))"
    by (simp add: invalid_coordinates_def)
  moreover have "coords_label (JNum (515237 / 10000)) (JNum (- 1586 / 10000))
                   = JStr ''51.5237, -0.1586''"
    by code_simp
  moreover have "\<not> success (projr (fst (reverseGeocode provider_down
                     (JNum (515237 / 10000)) (JNum (- 1586 / 10000)))))"
    by code_simp
  moreover have "error (projr (fst (reverseGeocode provider_down
                     (JNum (515237 / 10000)) (JNum (- 1586 / 10000)))))
                   = JStr ''Reverse geocoding failed: Request failed with status code 503''"
    by code_simp
  moreover note
    geocode_result_invariant [of provider_baker "JStr ''221B Baker Street, London''"
        "JNum (515237 / 10000)" "JNum (- 1586 / 10000)"]
    geocode_result_invariant [of provider_down "JStr ''221B Baker Street, London''"
        "JNum (515237 / 10000)" "JNum (- 1586 / 10000)"]
  ultimately show ?thesis
    by (auto simp del: nullish.simps)
qed

text \<open>
  The claim C3 as stated fails: for the point (12.5, 56.25) and a provider without results,
  \<^verbatim>\<open>reverseGeocode\<close> returns \<^verbatim>\<open>success: false\<close> with an \<^verbatim>\<open>address\<close> that is not null.
\<close>

theorem reverse_failure_has_address:
  "\<not> success (projr (fst (reverseGeocode provider_empty (JNum (25 / 2)) (JNum (225 / 4)))))
   \<and> address (projr (fst (reverseGeocode provider_empty (JNum (25 / 2)) (JNum (225 / 4)))))
       = JStr ''12.5, 56.25''"
  by code_simp

lemma lm_attempt_empty:
  assumes "js_prop data ''results'' = JArr []" and "response_ok st"
  shows "lm_attempt tn m x y k (Response st txt (Json data))
           = Return (JStr (''Location: '' @ toFixed x 4 @ '', '' @ toFixed y 4))"
proof -
  have "\<not> nullish data" using assms(1) by (cases data) auto
  then show ?thesis using assms by (simp add: lm_attempt_def)
qed

text \<open>
  C6, as the code has it. For coordinates that pass the guard and a provider that answers
  with an empty result set, \<^verbatim>\<open>GeocodingService.reverseGeocode\<close> returns \<^verbatim>\<open>success: false\<close>, the
  error "No address found for the provided coordinates" and the label \<^verbatim>\<open>`${lat}, ${lng}`\<close>:
  the two numbers as Number::toString prints them, not rounded. In the browser, for a
  response with an empty result set, \<^verbatim>\<open>ListingMap.reverseGeocode\<close> returns a bare string
  and no \<^verbatim>\<open>success\<close> flag: "Location: ", then \<^verbatim>\<open>lat.toFixed(4)\<close>, ", " and \<^verbatim>\<open>lng.toFixed(4)\<close>.
\<close>

theorem reverseGeocode_no_results_label:
  assumes "\<not> invalid_coordinates lat lng"
      and "upstream w (Reverse lat lng) = Resolves data"
      and "js_prop data ''results'' = JArr []"
      and "apiKey m \<noteq> []"
      and "net attempt = Response st txt (Json data)"
      and "response_ok st"
  shows "reverseGeocode w lat lng =
           (Inr \<lparr>success = False, coordinates = JUndefined,
                  address = JStr (js_to_string lat @ '', '' @ js_to_string lng),
                  country = JUndefined, city = JUndefined, state = JUndefined,
                  error = JStr ''No address found for the provided coordinates''\<rparr>,
            [Reverse lat lng])
         \<and> lm_reverseGeocode tn m net x y attempt
             = (JStr (''Location: '' @ toFixed x 4 @ '', '' @ toFixed y 4), [attempt])"
proof
  show "reverseGeocode w lat lng =
           (Inr \<lparr>success = False, coordinates = JUndefined,
                  address = JStr (js_to_string lat @ '', '' @ js_to_string lng),
                  country = JUndefined, city = JUndefined, state = JUndefined,
                  error = JStr ''No address found for the provided coordinates''\<rparr>,
            [Reverse lat lng])"
    using assms(1-3) by (simp add: reverseGeocode_def reverseGeocode_try_def coords_label_def)
  show "lm_reverseGeocode tn m net x y attempt
             = (JStr (''Location: '' @ toFixed x 4 @ '', '' @ toFixed y 4), [attempt])"
    using assms(4,5) lm_attempt_empty [OF assms(3) assms(6)]
    by (subst lm_reverseGeocode.simps) simp
qed

theorem reverseGeocode_no_results_label_witness:
  "\<not> invalid_coordinates (JNum (25 / 2)) (JNum (225 / 4))
   \<and> upstream provider_empty (Reverse (JNum (25 / 2)) (JNum (225 / 4)))
       = Resolves (JObj [(''results'', JArr [])])
   \<and> js_prop (JObj [(''results'', JArr [])]) ''results'' = JArr []
   \<and> apiKey click_map \<noteq> []
   \<and> net_empty 1 = Response 200 ''OK'' (Json (JObj [(''results'', JArr [])]))
   \<and> response_ok 200
   \<and> reverseGeocode provider_empty (JNum (25 / 2)) (JNum (225 / 4)) =
           (Inr \<lparr>success = False, coordinates = JUndefined,
                  address = JStr ''12.5, 56.25'',
                  country = JUndefined, city = JUndefined, state = JUndefined,
                  error = JStr ''No address found for the provided coordinates''\<rparr>,
            [Reverse (JNum (25 / 2)) (JNum (225 / 4))])
   \<and> lm_reverseGeocode no_number click_map net_empty (25 / 2) (225 / 4) 1
       = (JStr ''Location: 12.5000, 56.2500'', [1])"
proof -
  have h1: "\<not> invalid_coordinates (JNum (25 / 2)) (JNum (225 / 4))"
    by (simp add: invalid_coordinates_def)
  have h2: "upstream provider_empty (Reverse (JNum (25 / 2)) (JNum (225 / 4)))
              = Resolves (JObj [(''results'', JArr [])])"
    by (simp add: provider_empty_def)
  have h3: "js_prop (JObj [(''results'', JArr [])]) ''results'' = JArr []"
    by simp
  have h4: "apiKey click_map \<noteq> []"
    by (simp add: click_map_def)
  have h5: "net_empty 1 = Response 200 ''OK'' (Json (JObj [(''results'', JArr [])]))"
    by (simp add: net_empty_def)
  have h6: "response_ok 200"
    by (simp add: response_ok_def)
  have e1: "js_to_string (JNum (25 / 2)) @ '', '' @ js_to_string (JNum (225 / 4)) = ''12.5, 56.25''"
    by code_simp
  have e2: "''Location: '' @ toFixed (25 / 2) 4 @ '', '' @ toFixed (225 / 4) 4
              = ''Location: 12.5000, 56.2500''"
    by code_simp
  show ?thesis
    using reverseGeocode_no_results_label [where net = net_empty and attempt = 1
          and tn = no_number and x = "25 / 2" and y = "225 / 4", OF h1 h2 h3 h4 h5 h6]
      h1 h2 h3 h4 h5 h6
    unfolding e1 e2 by blast
qed

text \<open>
  The claim C6 as stated fails: for the point (12.345678, 56.789012) the label of
  \<^verbatim>\<open>GeocodingService.reverseGeocode\<close> is "12.345678, 56.789012", and the label rounded to 4
  decimals would be "12.3457, 56.7890".
\<close>

theorem reverse_label_not_rounded:
  "address (projr (fst (reverseGeocode provider_empty
       (JNum (6172839 / 500000)) (JNum (14197253 / 250000)))))
     = JStr ''12.345678, 56.789012''
   \<and> spec_rounded_label (6172839 / 500000) (14197253 / 250000) = ''12.3457, 56.7890''"
  by code_simp





section \<open>Properties of the controllers\<close>

text \<open>
  C4, as the code has it. When forward geocoding of the address fails, whatever the
  failure: \<^verbatim>\<open>createListing\<close> (with an uploaded file and a store that accepts the document)
  flashes a warning, saves the listing with the Point at \<^verbatim>\<open>DEFAULT_COORDINATES\<close> and redirects
  to the index; \<^verbatim>\<open>updateListing\<close> (with a found document, a non-empty address and a store
  that accepts the document) flashes a warning, then the success message, and saves the
  listing with the geometry it already had, or with the default Point if it had none.
\<close>

theorem geocoding_failure_on_save:
  assumes "fst (geocodeAddress w loc) = Inr g" and "\<not> success g"
  shows "createListing w (Some (url, filename)) loc cntry user (Returns ()) =
           \<lparr>flashes = [(''warning'', ''Listing created but location mapping failed: ''
                          @ js_to_string (error g)
                          @ ''. Please update the address for accurate location display.'')],
            redirect = ''/listings'',
            saved = Some \<lparr>l_location = loc, l_country = cntry, l_geometry = default_point,
                           l_image = JObj [(''url'', JStr url), (''filename'', JStr filename)],
                           l_owner = user\<rparr>\<rparr>
         \<and> (truthy loc \<longrightarrow>
              flashes (updateListing w ident (Returns (Some lst)) loc file (Returns ())) =
                [(''warning'', ''Listing updated but location mapping failed: ''
                     @ js_to_string (error g)),
                 (''success'', ''Listing Updated Successfully!'')]
              \<and> redirect (updateListing w ident (Returns (Some lst)) loc file (Returns ()))
                  = ''/listings/'' @ ident
              \<and> (\<exists>doc. saved (updateListing w ident (Returns (Some lst)) loc file (Returns ()))
                         = Some doc
                    \<and> l_geometry doc =
                        (if \<not> truthy (l_geometry lst)
                            \<or> \<not> truthy (js_prop (l_geometry lst) ''coordinates'')
                         then default_point else l_geometry lst)))"
  using assms
  by (auto simp: createListing_def createListing_geocoded_def updateListing_def
      updateListing_location_def updateListing_geocoded_def split: option.splits)

theorem geocoding_failure_on_save_witness:
  "fst (geocodeAddress provider_empty (JStr ''Nowhere'')) =
      Inr \<lparr>success = False, coordinates = JNull, address = JStr ''Nowhere'',
            country = JUndefined, city = JUndefined, state = JUndefined,
            error = JStr ''No results found for the provided address''\<rparr>
   \<and> createListing provider_empty (Some (''u'', ''f'')) (JStr ''Nowhere'') (JStr ''India'') (JStr ''u1'') (Returns ()) =
           \<lparr>flashes = [(''warning'', ''Listing created but location mapping failed: No results found for the provided address. Please update the address for accurate location display.'')],
            redirect = ''/listings'',
            saved = Some \<lparr>l_location = JStr ''Nowhere'', l_country = JStr ''India'', l_geometry = default_point,
                           l_image = JObj [(''url'', JStr ''u''), (''filename'', JStr ''f'')],
                           l_owner = JStr ''u1''\<rparr>\<rparr>
   \<and> flashes (updateListing provider_empty ''42'' (Returns (Some (stored_listing\<lparr>l_geometry := JUndefined\<rparr>)))
         (JStr ''Nowhere'') None (Returns ())) =
           [(''warning'', ''Listing updated but location mapping failed: No results found for the provided address''),
            (''success'', ''Listing Updated Successfully!'')]
   \<and> (\<exists>doc. saved (updateListing provider_empty ''42'' (Returns (Some (stored_listing\<lparr>l_geometry := JUndefined\<rparr>)))
         (JStr ''Nowhere'') None (Returns ())) = Some doc \<and> l_geometry doc = default_point)"
proof -
  have g: "fst (geocodeAddress provider_empty (JStr ''Nowhere'')) =
      Inr \<lparr>success = False, coordinates = JNull, address = JStr ''Nowhere'',
            country = JUndefined, city = JUndefined, state = JUndefined,
            error = JStr ''No results found for the provided address''\<rparr>"
    by code_simp
  show ?thesis
    using g geocoding_failure_on_save [OF g, of "''u''" "''f''" "JStr ''India''" "JStr ''u1''" "''42''"
        "stored_listing\<lparr>l_geometry := JUndefined\<rparr>" None]
    by simp
qed

text \<open>
  The claim C4 as stated fails for an update: a listing that has a geometry keeps it when
  geocoding of its new address fails, and that geometry is not the default Point.
\<close>

theorem update_keeps_existing_geometry:
  "saved (updateListing provider_empty ''42'' (Returns (Some stored_listing))
            (JStr ''Nowhere'') None (Returns ())) = Some stored_listing
   \<and> l_geometry stored_listing = point (JArr [JNum (772 / 10), JNum (286 / 10)])
   \<and> l_geometry stored_listing \<noteq> default_point"
  by code_simp

lemma suggestions_response_ac_result:
  "suggestions_response (Inr (ac_result ok xs e)) = json_reply 200 (JBool ok) (JArr xs) (or_else e JNull)"
  by (simp add: suggestions_response_def ac_result_def or_else_def)

lemma suggestions_response_shape:
  "\<exists>ok xs e. suggestions_response r = json_reply (status (suggestions_response r)) ok (JArr xs) e
      \<and> (status (suggestions_response r) \<noteq> 200 \<longrightarrow>
            status (suggestions_response r) = 500 \<and> ok = JBool False \<and> xs = []
            \<and> e = JStr ''Failed to get address suggestions'')"
proof (cases r)
  case (Inl err)
  then show ?thesis by (simp add: suggestions_response_def json_reply_def)
next
  case (Inr result)
  show ?thesis
  proof (cases "truthy result \<and> typeof result = TObject")
    case True
    then show ?thesis using Inr
      by (cases "js_prop result ''suggestions''")
         (simp_all add: suggestions_response_def json_reply_def)
  next
    case False
    then show ?thesis using Inr by (auto simp: suggestions_response_def json_reply_def)
  qed
qed

text \<open>
  C10. Every response of the address-suggestions endpoint has status 200, 400 or 500 and a
  body \<^verbatim>\<open>{success, suggestions, error}\<close> in which \<^verbatim>\<open>success\<close> is a boolean, \<^verbatim>\<open>suggestions\<close> an
  array, empty whenever \<^verbatim>\<open>success\<close> is false, and \<^verbatim>\<open>error\<close> a string or null. Whatever the
  geocoding service returns or throws in its place, \<^verbatim>\<open>suggestions\<close> is still an array, and
  every response that is not a 200 has \<^verbatim>\<open>success: false\<close>, the empty array and a string
  error; a returned value that is not an object gives the 500 response.
\<close>

theorem address_suggestions_body_shape:
  "(\<exists>ok xs e. body (fst (getAddressSuggestions w token query cntry))
                 = JObj [(''success'', JBool ok), (''suggestions'', JArr xs), (''error'', e)]
        \<and> (e = JNull \<or> (\<exists>s. e = JStr s))
        \<and> (\<not> ok \<longrightarrow> xs = [])
        \<and> status (fst (getAddressSuggestions w token query cntry)) \<in> {200, 400, 500})
   \<and> (\<exists>ok xs e. body (fst (getAddressSuggestions_with service token query cntry))
                 = JObj [(''success'', ok), (''suggestions'', JArr xs), (''error'', e)]
        \<and> (status (fst (getAddressSuggestions_with service token query cntry)) \<noteq> 200 \<longrightarrow>
              ok = JBool False \<and> xs = [] \<and> (\<exists>s. e = JStr s)))
   \<and> (\<not> (truthy v \<and> typeof v = TObject) \<longrightarrow>
         suggestions_response (Inr v)
           = json_reply 500 (JBool False) (JArr []) (JStr ''Failed to get address suggestions''))"
proof (intro conjI)
  obtain ok xs e where r: "fst (getAutocompleteSuggestions w (JStr (trim (js_to_string query)))
                               (suggestion_options cntry)) = Inr (ac_result ok xs e)"
      and e: "e = JNull \<or> (\<exists>s. e = JStr s)" and xs: "\<not> ok \<longrightarrow> xs = []"
    using getAutocompleteSuggestions_result by blast
  have oe: "or_else e JNull = JNull \<or> (\<exists>s. or_else e JNull = JStr s)"
    using e by (auto simp: or_else_def)
  show "\<exists>ok xs e. body (fst (getAddressSuggestions w token query cntry))
                 = JObj [(''success'', JBool ok), (''suggestions'', JArr xs), (''error'', e)]
        \<and> (e = JNull \<or> (\<exists>s. e = JStr s))
        \<and> (\<not> ok \<longrightarrow> xs = [])
        \<and> status (fst (getAddressSuggestions w token query cntry)) \<in> {200, 400, 500}"
    using r oe xs
    by (cases "getAutocompleteSuggestions w (JStr (trim (js_to_string query))) (suggestion_options cntry)")
       (auto simp: getAddressSuggestions_def getAddressSuggestions_with_def json_reply_def
          suggestions_response_ac_result)
  obtain ok' xs' e' where
    s: "suggestions_response (fst (service (JStr (trim (js_to_string query))) (suggestion_options cntry)))
          = json_reply (status (suggestions_response (fst (service (JStr (trim (js_to_string query))) (suggestion_options cntry))))) ok' (JArr xs') e'"
    and s5: "status (suggestions_response (fst (service (JStr (trim (js_to_string query))) (suggestion_options cntry)))) \<noteq> 200 \<longrightarrow>
            ok' = JBool False \<and> xs' = [] \<and> e' = JStr ''Failed to get address suggestions''"
    using suggestions_response_shape by blast
  show "\<exists>ok xs e. body (fst (getAddressSuggestions_with service token query cntry))
                 = JObj [(''success'', ok), (''suggestions'', JArr xs), (''error'', e)]
        \<and> (status (fst (getAddressSuggestions_with service token query cntry)) \<noteq> 200 \<longrightarrow>
              ok = JBool False \<and> xs = [] \<and> (\<exists>s. e = JStr s))"
  proof (cases "\<not> truthy query \<or> typeof query \<noteq> TString \<or> length (js_to_string query) < 2
                 \<or> 200 < length (js_to_string query) \<or> \<not> truthy token")
    case True
    then show ?thesis
      by (auto simp: getAddressSuggestions_with_def json_reply_def)
  next
    case False
    then have "fst (getAddressSuggestions_with service token query cntry)
             = suggestions_response (fst (service (JStr (trim (js_to_string query))) (suggestion_options cntry)))"
      by (simp add: getAddressSuggestions_with_def split: prod.splits)
    then show ?thesis using s s5
      by (metis (no_types, lifting) http_response.select_convs(2) json_reply_def)
  qed
  show "\<not> (truthy v \<and> typeof v = TObject) \<longrightarrow>
         suggestions_response (Inr v)
           = json_reply 500 (JBool False) (JArr []) (JStr ''Failed to get address suggestions'')"
    by (simp add: suggestions_response_def)
qed

theorem address_suggestions_body_shape_witness:
  "getAddressSuggestions provider_baker (JStr ''token'') (JStr ''Baker'') (JStr ''GB'') =
     (\<lparr>status = 200,
       body = JObj [(''success'', JBool True),
                    (''suggestions'',
                     JArr [JObj [(''address'', JStr ''221B Baker St, London, UK''),
                                 (''coordinates'', JArr [JNum (- 1586 / 10000), JNum (515237 / 10000)]),
                                 (''country'', JStr ''United Kingdom''),
                                 (''city'', JStr []), (''state'', JStr [])]]),
                    (''error'', JNull)]\<rparr>,
      [Autocomplete ''Baker'' (JNum 5) (Some ''countrycode:gb'')])
   \<and> (\<exists>ok xs e. body (fst (getAddressSuggestions provider_baker (JStr ''token'') (JStr ''Baker'') (JStr ''GB'')))
                 = JObj [(''success'', JBool ok), (''suggestions'', JArr xs), (''error'', e)]
        \<and> (e = JNull \<or> (\<exists>s. e = JStr s))
        \<and> (\<not> ok \<longrightarrow> xs = [])
        \<and> status (fst (getAddressSuggestions provider_baker (JStr ''token'') (JStr ''Baker'') (JStr ''GB''))) \<in> {200, 400, 500})
   \<and> \<not> (truthy (JStr ''not an object'') \<and> typeof (JStr ''not an object'') = TObject)
   \<and> suggestions_response (Inr (JStr ''not an object''))
           = json_reply 500 (JBool False) (JArr []) (JStr ''Failed to get address suggestions'')"
proof -
  have e: "getAddressSuggestions provider_baker (JStr ''token'') (JStr ''Baker'') (JStr ''GB'') =
     (\<lparr>status = 200,
       body = JObj [(''success'', JBool True),
                    (''suggestions'',
                     JArr [JObj [(''address'', JStr ''221B Baker St, London, UK''),
                                 (''coordinates'', JArr [JNum (- 1586 / 10000), JNum (515237 / 10000)]),
                                 (''country'', JStr ''United Kingdom''),
                                 (''city'', JStr []), (''state'', JStr [])]]),
                    (''error'', JNull)]\<rparr>,
      [Autocomplete ''Baker'' (JNum 5) (Some ''countrycode:gb'')])"
    by code_simp
  have n: "\<not> (truthy (JStr ''not an object'') \<and> typeof (JStr ''not an object'') = TObject)"
    by simp
  note t = address_suggestions_body_shape [of provider_baker "JStr ''token''" "JStr ''Baker''"
      "JStr ''GB''" "getAutocompleteSuggestions provider_baker" "JStr ''not an object''"]
  from t have t1: "\<exists>ok xs e. body (fst (getAddressSuggestions provider_baker (JStr ''token'') (JStr ''Baker'') (JStr ''GB'')))
                 = JObj [(''success'', JBool ok), (''suggestions'', JArr xs), (''error'', e)]
        \<and> (e = JNull \<or> (\<exists>s. e = JStr s))
        \<and> (\<not> ok \<longrightarrow> xs = [])
        \<and> status (fst (getAddressSuggestions provider_baker (JStr ''token'') (JStr ''Baker'') (JStr ''GB''))) \<in> {200, 400, 500}"
    by (rule conjunct1)
  from t n have t3: "suggestions_response (Inr (JStr ''not an object''))
           = json_reply 500 (JBool False) (JArr []) (JStr ''Failed to get address suggestions'')"
    by blast
  show ?thesis using e t1 n t3 by (intro conjI)
qed

section \<open>Properties of the autocomplete\<close>

lemma fetchSuggestions_call_loading: "isLoading p \<Longrightarrow> fetchSuggestions_call query attempt p = p"
  by (simp add: fetchSuggestions_call_def)

text \<open>
  At most one invocation of \<^verbatim>\<open>fetchSuggestions\<close> is suspended at any time, and \<^verbatim>\<open>isLoading\<close> is
  set exactly while one is: the one slot \<open>task\<close> of the page is enough.
\<close>

lemma step_keeps_task_iff_loading:
  assumes "(task p = None) = (\<not> isLoading p)"
  shows "(task (step p ev) = None) = (\<not> isLoading (step p ev))"
proof (cases ev)
  case (Input raw)
  then show ?thesis using assms by (simp add: onInput_def hideSuggestions_def Let_def)
next
  case TimerFires
  then show ?thesis using assms
    by (simp add: fetchSuggestions_call_def showLoading_def split: option.splits)
next
  case (FetchSettles out)
  then show ?thesis using assms
    by (auto simp: fetch_settled_def fetch_catch_def fetch_wait_def fetch_finally_def
        displaySuggestions_def showNoResults_def showError_def
        split: option.splits fetch_outcome.splits fetch_body.splits)
next
  case DelayPasses
  then show ?thesis using assms
    by (auto simp: fetch_delayed_def fetchSuggestions_call_def split: option.splits)
next
  case (Select i)
  then show ?thesis using assms
    by (auto simp: selectSuggestion_def updateMapLocation_def setLocation_def
        updateLocationFields_def hideSuggestions_def updateRelatedFields_def Let_def
        split: option.splits prod.splits jsval.splits)
qed

lemma run_keeps_task_iff_loading:
  "(task p = None) = (\<not> isLoading p) \<Longrightarrow> (task (run p evs) = None) = (\<not> isLoading (run p evs))"
  unfolding run_def
  by (induction evs arbitrary: p) (simp_all add: step_keeps_task_iff_loading)

lemma new_page_task_iff_loading:
  "(task (run new_page evs) = None) = (\<not> isLoading (run new_page evs))"
  by (rule run_keeps_task_iff_loading) (simp add: new_page_def)

text \<open>
  C1, as the code has it. The object has no generation counter; what it has is the guard
  on \<^verbatim>\<open>isLoading\<close>. While the request for query A is in flight, the call of
  \<^verbatim>\<open>fetchSuggestions\<close> for a later query B (made when B's debounce timer fires) returns at
  the guard: it sends nothing and changes nothing. A's response, when it arrives, is
  applied as if B had never been issued: its suggestions are stored and displayed, and
  B is not fetched.
\<close>

theorem in_flight_request_wins:
  assumes "isLoading p"
      and "task p = Some \<lparr>t_query = qa, t_attempt = k, t_phase = AwaitingFetch\<rparr>"
      and "debounceTimer p = Some qb"
      and "response_ok st"
      and "out = Response st txt (Json \<lparr>b_success = True, b_suggestions = xs, b_error = e\<rparr>)"
  shows "fetchSuggestions_call qb 1 p = p
         \<and> sent (run p [TimerFires]) = sent p
         \<and> task (run p [TimerFires]) = task p
         \<and> run p [TimerFires, FetchSettles out] = (run p [FetchSettles out])\<lparr>debounceTimer := None\<rparr>
         \<and> sent (run p [TimerFires, FetchSettles out]) = sent p
         \<and> suggestions (run p [TimerFires, FetchSettles out]) = xs
         \<and> listContent (run p [TimerFires, FetchSettles out])
              = (if xs = [] then NoResultsItem else Items xs)
         \<and> visible (run p [TimerFires, FetchSettles out])
         \<and> \<not> isLoading (run p [TimerFires, FetchSettles out])"
  using assms
  by (simp add: run_def fetchSuggestions_call_def fetch_settled_def
      fetch_finally_def displaySuggestions_def showNoResults_def)

theorem in_flight_request_wins_witness:
  "isLoading (run new_page [Input ''Paris'', TimerFires, Input ''London''])
   \<and> task (run new_page [Input ''Paris'', TimerFires, Input ''London''])
       = Some \<lparr>t_query = ''Paris'', t_attempt = 1, t_phase = AwaitingFetch\<rparr>
   \<and> debounceTimer (run new_page [Input ''Paris'', TimerFires, Input ''London'']) = Some ''London''
   \<and> response_ok 200
   \<and> sent (run (run new_page [Input ''Paris'', TimerFires, Input ''London''])
              [TimerFires, FetchSettles paris_response]) = [(''Paris'', [])]
   \<and> suggestions (run (run new_page [Input ''Paris'', TimerFires, Input ''London''])
              [TimerFires, FetchSettles paris_response]) = [paris]
   \<and> listContent (run (run new_page [Input ''Paris'', TimerFires, Input ''London''])
              [TimerFires, FetchSettles paris_response]) = Items [paris]"
proof -
  have h1: "isLoading (run new_page [Input ''Paris'', TimerFires, Input ''London''])"
    by code_simp
  have h2: "task (run new_page [Input ''Paris'', TimerFires, Input ''London''])
       = Some \<lparr>t_query = ''Paris'', t_attempt = 1, t_phase = AwaitingFetch\<rparr>"
    by code_simp
  have h3: "debounceTimer (run new_page [Input ''Paris'', TimerFires, Input ''London'']) = Some ''London''"
    by code_simp
  have h4: "response_ok 200"
    by (simp add: response_ok_def)
  have h5: "paris_response = Response 200 ''OK'' (Json \<lparr>b_success = True, b_suggestions = [paris], b_error = None\<rparr>)"
    by (simp add: paris_response_def)
  have s: "sent (run new_page [Input ''Paris'', TimerFires, Input ''London'']) = [(''Paris'', [])]"
    by code_simp
  note t = in_flight_request_wins [OF h1 h2 h3 h4 h5]
  from t have c1: "sent (run (run new_page [Input ''Paris'', TimerFires, Input ''London''])
              [TimerFires, FetchSettles paris_response])
            = sent (run new_page [Input ''Paris'', TimerFires, Input ''London''])"
    by blast
  from t have c2: "suggestions (run (run new_page [Input ''Paris'', TimerFires, Input ''London''])
              [TimerFires, FetchSettles paris_response]) = [paris]"
    by blast
  from t have c3: "listContent (run (run new_page [Input ''Paris'', TimerFires, Input ''London''])
              [TimerFires, FetchSettles paris_response])
            = (if [paris] = [] then NoResultsItem else Items [paris])"
    by blast
  show ?thesis
    using h1 h2 h3 h4 c1 c2 c3 s by simp
qed

text \<open>
  The claim C1 as stated fails: the user types "Paris", its request is sent, the user
  types "London" and London's timer fires before the response for "Paris" arrives. The
  response then arrives and the list displays the suggestions for "Paris" under an input
  that reads "London"; no request for "London" was sent.
\<close>

theorem stale_response_is_displayed:
  "listContent (run new_page [Input ''Paris'', TimerFires, Input ''London'', TimerFires,
                              FetchSettles paris_response]) = Items [paris]
   \<and> visible (run new_page [Input ''Paris'', TimerFires, Input ''London'', TimerFires,
                              FetchSettles paris_response])
   \<and> input_value (run new_page [Input ''Paris'', TimerFires, Input ''London'', TimerFires,
                              FetchSettles paris_response]) = ''London''
   \<and> sent (run new_page [Input ''Paris'', TimerFires, Input ''London'', TimerFires,
                              FetchSettles paris_response]) = [(''Paris'', [])]"
  by code_simp

text \<open>
  C5, on the code. When the first request of a query is answered with HTTP 429, the
  invocation waits 1000 ms and calls \<^verbatim>\<open>fetchSuggestions(query, 2)\<close>; \<^verbatim>\<open>isLoading\<close> is still set
  by the invocation itself, so the call returns at the guard. No second request is sent,
  the list keeps its loading row, and a response that might come later finds nobody
  waiting. The session does end with \<^verbatim>\<open>isLoading\<close> false, through the \<^verbatim>\<open>finally\<close>, but the
  retried suggestions of the claim are never fetched nor displayed.
\<close>

theorem rate_limited_retry_never_sent:
  assumes "isLoading p"
      and "task p = Some \<lparr>t_query = q, t_attempt = 1, t_phase = AwaitingFetch\<rparr>"
  shows "run p [FetchSettles (Response 429 txt b), DelayPasses]
           = p\<lparr>isLoading := False, task := None, waits := waits p @ [1000]\<rparr>
         \<and> sent (run p [FetchSettles (Response 429 txt b), DelayPasses]) = sent p
         \<and> listContent (run p [FetchSettles (Response 429 txt b), DelayPasses]) = listContent p
         \<and> run p [FetchSettles (Response 429 txt b), DelayPasses, FetchSettles out]
             = run p [FetchSettles (Response 429 txt b), DelayPasses]"
  using assms
  by (simp add: run_def fetch_settled_def response_ok_def fetch_wait_def fetch_delayed_def
      fetchSuggestions_call_def)

theorem rate_limited_retry_never_sent_witness:
  "isLoading (run new_page [Input ''Paris'', TimerFires])
   \<and> task (run new_page [Input ''Paris'', TimerFires])
       = Some \<lparr>t_query = ''Paris'', t_attempt = 1, t_phase = AwaitingFetch\<rparr>
   \<and> sent (run new_page [Input ''Paris'', TimerFires]) = [(''Paris'', [])]
   \<and> listContent (run new_page [Input ''Paris'', TimerFires]) = LoadingItem
   \<and> sent (run (run new_page [Input ''Paris'', TimerFires])
             [FetchSettles (Response 429 ''Too Many Requests'' (BadJson [])), DelayPasses])
       = [(''Paris'', [])]
   \<and> listContent (run (run new_page [Input ''Paris'', TimerFires])
             [FetchSettles (Response 429 ''Too Many Requests'' (BadJson [])), DelayPasses])
       = LoadingItem
   \<and> run new_page [Input ''Paris'', TimerFires,
                   FetchSettles (Response 429 ''Too Many Requests'' (BadJson [])),
                   DelayPasses, FetchSettles paris_response]
       = new_page\<lparr>input_value := ''Paris'', isLoading := False, suggestions := [],
                   listContent := LoadingItem, visible := True,
                   sent := [(''Paris'', [])], waits := [1000]\<rparr>"
proof -
  have h1: "isLoading (run new_page [Input ''Paris'', TimerFires])" by code_simp
  have h2: "task (run new_page [Input ''Paris'', TimerFires])
       = Some \<lparr>t_query = ''Paris'', t_attempt = 1, t_phase = AwaitingFetch\<rparr>" by code_simp
  have s: "sent (run new_page [Input ''Paris'', TimerFires]) = [(''Paris'', [])]" by code_simp
  have l: "listContent (run new_page [Input ''Paris'', TimerFires]) = LoadingItem" by code_simp
  have e: "run new_page [Input ''Paris'', TimerFires,
                   FetchSettles (Response 429 ''Too Many Requests'' (BadJson [])),
                   DelayPasses, FetchSettles paris_response]
       = new_page\<lparr>input_value := ''Paris'', isLoading := False, suggestions := [],
                   listContent := LoadingItem, visible := True,
                   sent := [(''Paris'', [])], waits := [1000]\<rparr>" by code_simp
  note t = rate_limited_retry_never_sent [OF h1 h2, of "''Too Many Requests''" "BadJson []" paris_response]
  from t s have c1: "sent (run (run new_page [Input ''Paris'', TimerFires])
             [FetchSettles (Response 429 ''Too Many Requests'' (BadJson [])), DelayPasses])
       = [(''Paris'', [])]" by simp
  from t l have c2: "listContent (run (run new_page [Input ''Paris'', TimerFires])
             [FetchSettles (Response 429 ''Too Many Requests'' (BadJson [])), DelayPasses])
       = LoadingItem" by simp
  show ?thesis using h1 h2 s l c1 c2 e by (intro conjI)
qed

lemma dom_string_num: "dom_string (JNum a) = rat_string a"
  by (simp add: dom_string_def)

lemma updateMapLocation_keeps:
  "countryField (updateMapLocation sg p) = countryField p"
  "suggestions (updateMapLocation sg p) = suggestions p"
  "(listingMap (updateMapLocation sg p) = None) = (listingMap p = None)"
  by (auto simp: updateMapLocation_def setLocation_def updateLocationFields_def
      split: option.splits prod.splits jsval.splits)

text \<open>
  When the map is moved it writes the same address and the same two numbers into the
  form that \<^verbatim>\<open>selectSuggestion\<close> and \<^verbatim>\<open>updateRelatedFields\<close> have just written.
\<close>

lemma updateMapLocation_coordinates:
  assumes "s_coordinates sg = Some (lng, lat)"
      and "latField p = map_option (\<lambda>old. dom_string lat) f1"
      and "lngField p = map_option (\<lambda>old. dom_string lng) f2"
      and "input_value p = s_address sg"
  shows "latField (updateMapLocation sg p) = latField p"
    and "lngField (updateMapLocation sg p) = lngField p"
    and "input_value (updateMapLocation sg p) = input_value p"
  using assms
  by (auto simp: updateMapLocation_def setLocation_def updateLocationFields_def dom_string_num
      option.map_comp comp_def
      split: option.splits prod.splits jsval.splits)

lemma updateMapLocation_no_coordinates:
  assumes "s_coordinates sg = None"
  shows "latField (updateMapLocation sg p) = latField p"
    and "lngField (updateMapLocation sg p) = lngField p"
    and "input_value (updateMapLocation sg p) = input_value p"
  using assms by (auto simp: updateMapLocation_def)

lemma selectSuggestion_country:
  assumes "i < length (suggestions p)"
  shows "countryField (selectSuggestion i p)
           = (case countryField p of
                None \<Rightarrow> None
              | Some v \<Rightarrow> Some (if v = [] \<and> s_country (suggestions p ! i) \<noteq> []
                                then s_country (suggestions p ! i) else v))"
  using assms
  by (auto simp: selectSuggestion_def updateMapLocation_keeps hideSuggestions_def
      updateRelatedFields_def Let_def split: option.splits prod.splits)

lemma selectSuggestion_coordinates:
  assumes "i < length (suggestions p)"
  shows "input_value (selectSuggestion i p) = s_address (suggestions p ! i)
       \<and> latField (selectSuggestion i p)
           = (case s_coordinates (suggestions p ! i) of
                Some (lng, lat) \<Rightarrow> map_option (\<lambda>old. dom_string lat) (latField p)
              | None \<Rightarrow> latField p)
       \<and> lngField (selectSuggestion i p)
           = (case s_coordinates (suggestions p ! i) of
                Some (lng, lat) \<Rightarrow> map_option (\<lambda>old. dom_string lng) (lngField p)
              | None \<Rightarrow> lngField p)"
proof (cases "s_coordinates (suggestions p ! i)")
  case None
  then show ?thesis using assms
    by (simp add: selectSuggestion_def updateMapLocation_no_coordinates hideSuggestions_def
        updateRelatedFields_def Let_def split: option.splits)
next
  case (Some c)
  obtain lng lat where c: "c = (lng, lat)" by (cases c)
  let ?q = "hideSuggestions (updateRelatedFields (suggestions p ! i)
              (p\<lparr>input_value := s_address (suggestions p ! i)\<rparr>))"
  have q1: "latField ?q = map_option (\<lambda>old. dom_string lat) (latField p)"
    and q2: "lngField ?q = map_option (\<lambda>old. dom_string lng) (lngField p)"
    and q3: "input_value ?q = s_address (suggestions p ! i)"
    using Some c
    by (auto simp: hideSuggestions_def updateRelatedFields_def Let_def split: option.splits)
  from updateMapLocation_coordinates [OF Some [unfolded c] q1 q2 q3]
  show ?thesis using assms Some c q1 q2 q3
    by (simp add: selectSuggestion_def Let_def)
qed

lemma selectSuggestion_suggestions:
  "suggestions (selectSuggestion i p) = suggestions p"
  by (auto simp: selectSuggestion_def updateMapLocation_keeps hideSuggestions_def
      updateRelatedFields_def Let_def split: option.splits prod.splits)

text \<open>
  C7, as the code has it. Selecting a suggestion writes the country input only if that
  input is empty (and the suggestion has a country): a country the user entered is never
  overwritten. The latitude and longitude inputs are written whenever the suggestion has
  coordinates, whatever they held before. Selecting the same suggestion a second time
  leaves the address, country, latitude and longitude inputs as the first selection left
  them.
\<close>

theorem selectSuggestion_fields:
  assumes "i < length (suggestions p)" and "sg = suggestions p ! i"
  shows "countryField (selectSuggestion i p)
           = (case countryField p of
                None \<Rightarrow> None
              | Some v \<Rightarrow> Some (if v = [] \<and> s_country sg \<noteq> [] then s_country sg else v))
       \<and> latField (selectSuggestion i p)
           = (case s_coordinates sg of
                Some (lng, lat) \<Rightarrow> map_option (\<lambda>old. dom_string lat) (latField p)
              | None \<Rightarrow> latField p)
       \<and> lngField (selectSuggestion i p)
           = (case s_coordinates sg of
                Some (lng, lat) \<Rightarrow> map_option (\<lambda>old. dom_string lng) (lngField p)
              | None \<Rightarrow> lngField p)
       \<and> input_value (selectSuggestion i (selectSuggestion i p)) = input_value (selectSuggestion i p)
       \<and> countryField (selectSuggestion i (selectSuggestion i p)) = countryField (selectSuggestion i p)
       \<and> latField (selectSuggestion i (selectSuggestion i p)) = latField (selectSuggestion i p)
       \<and> lngField (selectSuggestion i (selectSuggestion i p)) = lngField (selectSuggestion i p)"
proof -
  have i2: "i < length (suggestions (selectSuggestion i p))"
    using assms(1) by (simp add: selectSuggestion_suggestions)
  note a = selectSuggestion_country [OF assms(1)] selectSuggestion_coordinates [OF assms(1)]
  note b = selectSuggestion_country [OF i2] selectSuggestion_coordinates [OF i2]
  show ?thesis
    unfolding assms(2)
    using a b
    by (auto simp: selectSuggestion_suggestions option.map_comp comp_def
        split: option.splits prod.splits)
qed

theorem selectSuggestion_fields_witness:
  "(0::nat) < length (suggestions filled_page) \<and> paris = suggestions filled_page ! 0
   \<and> countryField filled_page = Some ''Belgium''
   \<and> countryField (selectSuggestion 0 filled_page) = Some ''Belgium''
   \<and> latField (selectSuggestion 0 filled_page) = Some ''48.85''
   \<and> lngField (selectSuggestion 0 filled_page) = Some ''2.35''
   \<and> latField (selectSuggestion 0 (selectSuggestion 0 filled_page)) = Some ''48.85''"
proof -
  have h1: "(0::nat) < length (suggestions filled_page)" by code_simp
  have h2: "paris = suggestions filled_page ! 0" by code_simp
  have e1: "countryField filled_page = Some ''Belgium''" by code_simp
  have e2: "latField filled_page = Some ''1.5''" by code_simp
  have e3: "lngField filled_page = Some ''2.5''" by code_simp
  have e4: "s_coordinates paris = Some (JNum (47 / 20), JNum (977 / 20))" by code_simp
  have e5: "dom_string (JNum (977 / 20)) = ''48.85''" by code_simp
  have e6: "dom_string (JNum (47 / 20)) = ''2.35''" by code_simp
  have e7: "s_country paris = ''France''" by code_simp
  note t = selectSuggestion_fields [OF h1 h2]
  from t have c1: "countryField (selectSuggestion 0 filled_page) = Some ''Belgium''"
    by (simp add: e1 e7)
  from t have c2: "latField (selectSuggestion 0 filled_page) = Some ''48.85''"
    by (simp add: e2 e4 e5)
  from t have c3: "lngField (selectSuggestion 0 filled_page) = Some ''2.35''"
    by (simp add: e3 e4 e6)
  from t c2 have c4: "latField (selectSuggestion 0 (selectSuggestion 0 filled_page)) = Some ''48.85''"
    by simp
  show ?thesis using h1 h2 e1 c1 c2 c3 c4 by blast
qed

text \<open>
  The claim C7 as stated fails for the coordinate inputs: a latitude of "1.5" and a
  longitude of "2.5" that the form held are overwritten by the selection.
\<close>

theorem selection_overwrites_coordinates:
  "latField filled_page = Some ''1.5''
   \<and> lngField filled_page = Some ''2.5''
   \<and> latField (selectSuggestion 0 filled_page) = Some ''48.85''
   \<and> lngField (selectSuggestion 0 filled_page) = Some ''2.35''"
  by code_simp

end
